theory Spec2Isabelle
  imports Main
begin

section \<open>JavaScript values at the boundary of the handlers\<close>

text \<open>
  Everything the handlers read (request bodies, query parameters, token payloads, rows
  read back from the record store) is JSON. A property that may be absent is a
  \<open>json option\<close>; \<open>None\<close> is JavaScript's \<open>undefined\<close>. The numbers of these values
  are only tested for truthiness and compared, never computed with, so they are integers
  here; the one number the handlers compute with, the upvote counter, has a section of
  its own.
\<close>

datatype json =
    JNull
  | JBool bool
  | JNum int
  | JStr string
  | JArr "json list"
  | JObj "(string \<times> json) list"

type_synonym obj = "(string \<times> json) list"

text \<open>Property access \<open>o.k\<close> on an object.\<close>

definition getp :: "obj \<Rightarrow> string \<Rightarrow> json option" where
  "getp ob k = map_of ob k"

text \<open>JavaScript truthiness, as used by \<open>!x\<close>, \<open>x && y\<close> and \<open>x || y\<close>.\<close>

fun truthy :: "json option \<Rightarrow> bool" where
  "truthy None = False"
| "truthy (Some JNull) = False"
| "truthy (Some (JBool b)) = b"
| "truthy (Some (JNum n)) = (n \<noteq> 0)"
| "truthy (Some (JStr s)) = (s \<noteq> [])"
| "truthy (Some (JArr xs)) = True"
| "truthy (Some (JObj ob)) = True"

text \<open>\<open>x || d\<close>: the left operand when it is truthy, the right one otherwise.\<close>

definition or_else :: "json option \<Rightarrow> json \<Rightarrow> json" where
  "or_else x d = (case x of Some v \<Rightarrow> (if truthy x then v else d) | None \<Rightarrow> d)"

text \<open>
  What JSON serialisation stores for a property: an \<open>undefined\<close> property is dropped
  and the column is left null.
\<close>

definition col :: "json option \<Rightarrow> json" where
  "col x = (case x of None \<Rightarrow> JNull | Some v \<Rightarrow> v)"

text \<open>\<open>s.split(d)\<close> on a sequence: the pieces between the separators, never empty.\<close>

fun split_on :: "'a \<Rightarrow> 'a list \<Rightarrow> 'a list list" where
  "split_on d [] = [[]]"
| "split_on d (x # xs) =
     (if x = d then [] # split_on d xs
      else (case split_on d xs of
              [] \<Rightarrow> [[x]]
            | r # rs \<Rightarrow> (x # r) # rs))"

section \<open>Session tokens\<close>

text \<open>
  Modelled from the spec: the jsonwebtoken library (\<open>jwt.sign\<close>, \<open>jwt.verify\<close>) is a
  dependency and not under src/. The spec says that issuing encodes the payload under
  the server's symmetric secret with a fixed expiry of one hour, that verification fails
  if the signature is invalid, the payload malformed or the token expired, and that a
  token is valid iff its signature verifies against the server secret and the current
  time is before the expiry.

  The model is symbolic. The text of a header is a sequence of pieces: single characters,
  and whole compact serialisations \<open>Jws claims key\<close> of a payload signed under a key. A
  serialisation contains no space and cannot be produced from plain characters. Time is
  in seconds.
\<close>

datatype piece = Ch char | Jws obj string

type_synonym wire = "piece list"

definition plain :: "string \<Rightarrow> wire" where
  "plain s = map Ch s"

text \<open>
  Modelled from the spec: the ways \<open>jwt.verify\<close> fails (payload malformed, signature
  invalid, token expired).
\<close>

datatype jwt_error = JwtMalformed | InvalidSignature | TokenExpired

text \<open>\<open>expiresIn: '1h'\<close>, as written at every call of \<open>jwt.sign\<close> in the source.\<close>

definition expiresIn_1h :: nat where
  "expiresIn_1h = 3600"

text \<open>
  Modelled from the spec: \<open>jwt.sign(payload, secret, { expiresIn })\<close> at time \<open>now\<close>
  encodes the payload with the time of issue and the expiry under the secret.
\<close>

definition jwt_sign :: "obj \<Rightarrow> string \<Rightarrow> nat \<Rightarrow> nat \<Rightarrow> wire" where
  "jwt_sign payload secret expiresIn now =
     [Jws (payload @ [(''iat'', JNum (int now)), (''exp'', JNum (int (now + expiresIn)))])
          secret]"

text \<open>
  Modelled from the spec: \<open>jwt.verify(token, secret)\<close> at time \<open>now\<close> returns the
  payload iff the text is one serialisation, signed under the secret, and \<open>now\<close> is
  before its expiry (a payload that carries none does not expire). The payloads signed
  in the source have no \<open>iat\<close> or \<open>exp\<close> of their own.
\<close>

definition jwt_verify :: "wire \<Rightarrow> string \<Rightarrow> nat \<Rightarrow> jwt_error + obj" where
  "jwt_verify token secret now =
     (case token of
        [Jws claims k] \<Rightarrow>
          if k \<noteq> secret then Inl InvalidSignature
          else (case getp claims ''exp'' of
                  Some (JNum e) \<Rightarrow> if e \<le> int now then Inl TokenExpired else Inr claims
                | _ \<Rightarrow> Inr claims)
      | _ \<Rightarrow> Inl JwtMalformed)"

subsection \<open>Issuing\<close>

text \<open>
  The user object of the identity provider: \<open>id\<close>, \<open>email\<close> and the optional
  \<open>user_metadata.admin\<close>.
\<close>

record user =
  user_id_of :: json
  email_of :: json
  metadata_admin :: "json option"

text \<open>src/index.js and part_000: \<open>jwt.sign({ email: user.email, id: user.id }, ...)\<close>.\<close>

definition generateToken_index :: "string \<Rightarrow> nat \<Rightarrow> user \<Rightarrow> wire" where
  "generateToken_index secret now u =
     jwt_sign [(''email'', email_of u), (''id'', user_id_of u)] secret expiresIn_1h now"

text \<open>
  part_001: \<open>jwt.sign({ email, id, isAdmin: user.user_metadata?.admin || false }, ...)\<close>.
\<close>

definition generateToken :: "string \<Rightarrow> nat \<Rightarrow> user \<Rightarrow> wire" where
  "generateToken secret now u =
     jwt_sign [(''email'', email_of u), (''id'', user_id_of u),
               (''isAdmin'', or_else (metadata_admin u) (JBool False))]
              secret expiresIn_1h now"

section \<open>The record store and the object storage\<close>

text \<open>
  Modelled from the spec: the record store and the object storage are an external
  service, reached through the supabase client, and not under src/. The spec says that
  all persistent state lives there, that every call is awaited, that any failure of a
  call is surfaced at once and never retried, and that a complaint is created with
  \<open>upvotes = 0\<close>. A request is modelled in isolation (no interleaving with other
  requests). Columns that receive request values hold JSON; \<open>upvotes\<close> is a nullable
  integer column, \<open>c_id\<close> and \<open>created_at\<close> are set by the store.
\<close>

record complaint =
  c_id :: nat
  user_id :: json
  title :: json
  description :: json
  status :: json
  tags :: json
  image_url :: json
  upvotes :: "int option"
  created_at :: nat

record store =
  complaints :: "complaint list"
  objects :: "string list"

text \<open>
  The external calls of one request, by kind. \<open>avail c\<close> says whether the service
  answers the call; when it does not, the call returns an error and changes nothing.
\<close>

datatype call = Fetch | Write | Storage

datatype db_error = Unavailable | NotSingle

text \<open>Modelled from the spec: \<open>.select(...)\<close> with the filters of the query.\<close>

definition db_select ::
  "bool \<Rightarrow> complaint list \<Rightarrow> (complaint \<Rightarrow> bool) \<Rightarrow> db_error + complaint list" where
  "db_select up t P = (if up then Inr (filter P t) else Inl Unavailable)"

text \<open>Modelled from the spec: \<open>.single()\<close>, an error unless exactly one row matches.\<close>

definition single :: "db_error + complaint list \<Rightarrow> db_error + complaint" where
  "single r = (case r of
                 Inl e \<Rightarrow> Inl e
               | Inr [x] \<Rightarrow> Inr x
               | Inr _ \<Rightarrow> Inl NotSingle)"

text \<open>Modelled from the spec: \<open>.order('created_at', { ascending: false })\<close>.\<close>

definition order_desc :: "complaint list \<Rightarrow> complaint list" where
  "order_desc rows = rev (sort_key created_at rows)"

text \<open>
  Modelled from the spec: the store gives a new row an id that no row has, and the
  columns the handler does not set are null, \<open>upvotes\<close> being 0.
\<close>

definition fresh_id :: "complaint list \<Rightarrow> nat" where
  "fresh_id t = Suc (fold max (map c_id t) 0)"

definition blank :: "nat \<Rightarrow> nat \<Rightarrow> complaint" where
  "blank i now = \<lparr>c_id = i, user_id = JNull, title = JNull, description = JNull,
                  status = JNull, tags = JNull, image_url = JNull, upvotes = Some 0,
                  created_at = now\<rparr>"

text \<open>
  Modelled from the spec: \<open>.insert([{...}]).select('*')\<close>. The columns the handler sets are given as an update
  of the blank row; the store returns the inserted rows.
\<close>

definition db_insert ::
  "bool \<Rightarrow> nat \<Rightarrow> complaint list \<Rightarrow> (complaint \<Rightarrow> complaint)
     \<Rightarrow> db_error + (complaint list \<times> complaint list)" where
  "db_insert up now t f =
     (if up then (let row = (f (blank (fresh_id t) now))\<lparr>c_id := fresh_id t, created_at := now\<rparr>
                  in Inr ([row], t @ [row]))
      else Inl Unavailable)"

text \<open>
  Modelled from the spec: \<open>.update({...}).eq(...)\<close>, the matching rows are changed, and
  returned; \<open>.delete().eq(...)\<close>, the matching rows are removed.
\<close>

definition db_update ::
  "bool \<Rightarrow> complaint list \<Rightarrow> (complaint \<Rightarrow> bool) \<Rightarrow> (complaint \<Rightarrow> complaint)
     \<Rightarrow> db_error + (complaint list \<times> complaint list)" where
  "db_update up t P f =
     (if up then Inr (map f (filter P t), map (\<lambda>r. if P r then f r else r) t)
      else Inl Unavailable)"

definition db_delete ::
  "bool \<Rightarrow> complaint list \<Rightarrow> (complaint \<Rightarrow> bool) \<Rightarrow> db_error + complaint list" where
  "db_delete up t P = (if up then Inr (filter (\<lambda>r. \<not> P r) t) else Inl Unavailable)"

text \<open>Modelled from the spec: \<open>.storage.from('complaint-images').remove([name])\<close>.\<close>

definition storage_remove :: "bool \<Rightarrow> string list \<Rightarrow> string \<Rightarrow> db_error + string list" where
  "storage_remove up os name =
     (if up then Inr (filter (\<lambda>n. n \<noteq> name) os) else Inl Unavailable)"

text \<open>
  Modelled from the spec: \<open>.upload(name, bytes, { upsert: false })\<close>, where an existing
  name is an error.
\<close>

definition storage_upload :: "bool \<Rightarrow> string list \<Rightarrow> string \<Rightarrow> db_error + string list" where
  "storage_upload up os name =
     (if up \<and> name \<notin> set os then Inr (os @ [name]) else Inl Unavailable)"

section \<open>Responses and gates\<close>

text \<open>
  A handler answers with a status and a body, or throws outside any \<open>try\<close>
  (\<open>Uncaught\<close>); a middleware can also hand an error to the framework with
  \<open>next(err)\<close> (\<open>NextErr\<close>). What the framework then sends is not the handler's doing.
\<close>

datatype body =
    Message string
  | Error string
  | Complaints "complaint list"
  | Submitted "complaint option"
  | SubmittedRows "complaint list"
  | Row complaint

datatype reply = Reply nat body | Uncaught | NextErr string

text \<open>
  A middleware either answers the request itself (\<open>Inl\<close>) or sets \<open>req.user\<close> and calls
  \<open>next()\<close> (\<open>Inr\<close> the payload). The header is absent (\<open>None\<close>) or a text; \<open>!token\<close>
  holds for the absent and for the empty header.
\<close>

definition authenticateToken :: "string \<Rightarrow> nat \<Rightarrow> wire option \<Rightarrow> reply + obj" where
  "authenticateToken secret now h =
     (case h of
        None \<Rightarrow> Inl (Reply 401 (Message ''Access denied. No token provided.''))
      | Some token \<Rightarrow>
          if token = [] then Inl (Reply 401 (Message ''Access denied. No token provided.''))
          else (case jwt_verify token secret now of
                  Inl err \<Rightarrow> Inl (Reply 403 (Message ''Invalid token.''))
                | Inr u \<Rightarrow> Inr u))"

definition authenticateAdmin :: "string \<Rightarrow> nat \<Rightarrow> wire option \<Rightarrow> reply + obj" where
  "authenticateAdmin secret now h =
     (case h of
        None \<Rightarrow> Inl (Reply 401 (Message ''Access denied. No token provided.''))
      | Some token \<Rightarrow>
          if token = [] then Inl (Reply 401 (Message ''Access denied. No token provided.''))
          else (case jwt_verify token secret now of
                  Inl err \<Rightarrow> Inl (Reply 403 (Message ''Invalid token.''))
                | Inr u \<Rightarrow>
                    if \<not> truthy (getp u ''isAdmin'')
                    then Inl (Reply 403 (Message ''Access denied. Admins only.''))
                    else Inr u))"

text \<open>
  src/authMiddleware.js:
  \<open>tokenHeader.startsWith("Bearer ") ? tokenHeader.split(" ")[1] : tokenHeader\<close>.
  The split of a text that starts with \<open>"Bearer "\<close> has at least two pieces, so the
  index 1 is always there.
\<close>

definition strip_bearer :: "wire \<Rightarrow> wire" where
  "strip_bearer tokenHeader =
     (if take 7 tokenHeader = plain ''Bearer ''
      then (case split_on (Ch (CHR '' '')) tokenHeader of
              a # b # rest \<Rightarrow> b
            | _ \<Rightarrow> [])
      else tokenHeader)"

definition isAdmin :: "string \<Rightarrow> nat \<Rightarrow> wire option \<Rightarrow> reply + obj" where
  "isAdmin secret now h =
     (case h of
        None \<Rightarrow> Inl (Reply 401 (Message ''Access denied. No token provided.''))
      | Some tokenHeader \<Rightarrow>
          if tokenHeader = [] then Inl (Reply 401 (Message ''Access denied. No token provided.''))
          else (case jwt_verify (strip_bearer tokenHeader) secret now of
                  Inl err \<Rightarrow> Inl (Reply 403 (Message ''Invalid token.''))
                | Inr u \<Rightarrow>
                    if \<not> truthy (getp u ''isAdmin'')
                    then Inl (Reply 403 (Message ''Access denied. Admins only.''))
                    else Inr u))"

section \<open>Shared helpers of the handlers\<close>

definition VALID_TAGS :: "string list" where
  "VALID_TAGS = [''electricity'', ''canteen'', ''furniture'', ''campus'']"

definition VALID_STATUS :: "string list" where
  "VALID_STATUS = [''pending'', ''working'', ''finished'']"

text \<open>\<open>xs.includes(v)\<close> for a list of strings: only an equal string is included.\<close>

definition includes_str :: "string list \<Rightarrow> json option \<Rightarrow> bool" where
  "includes_str xs v = (case v of Some (JStr s) \<Rightarrow> s \<in> set xs | _ \<Rightarrow> False)"

text \<open>
  \<open>a !== b\<close> is \<open>\<not> strict_eq a b\<close>. Arrays and objects are compared by reference, and
  a value read from the store is never the same reference as one of the request.
\<close>

fun strict_eq :: "json option \<Rightarrow> json option \<Rightarrow> bool" where
  "strict_eq (Some (JArr xs)) b = False"
| "strict_eq (Some (JObj ob)) b = False"
| "strict_eq a b = (a = b)"

text \<open>\<open>.contains('tags', [tag])\<close>: the row's tag list has the tag.\<close>

definition contains_tag :: "json \<Rightarrow> json \<Rightarrow> bool" where
  "contains_tag c v = (case c of JArr xs \<Rightarrow> v \<in> set xs | _ \<Rightarrow> False)"

section \<open>GET /complaints\<close>

text \<open>part_000: the requester's rows, as the store returns them.\<close>

definition get_complaints_p0 :: "(call \<Rightarrow> bool) \<Rightarrow> store \<Rightarrow> obj \<Rightarrow> reply" where
  "get_complaints_p0 avail st u =
     (let userId = getp u ''id'' in
      case db_select (avail Fetch) (complaints st) (\<lambda>r. Some (user_id r) = userId) of
        Inl e \<Rightarrow> Reply 500 (Message ''Error fetching complaints'')
      | Inr rows \<Rightarrow> Reply 200 (Complaints rows))"

text \<open>src/index.js and part_001: optional tag filter, newest first.\<close>

definition get_complaints :: "(call \<Rightarrow> bool) \<Rightarrow> store \<Rightarrow> obj \<Rightarrow> json option \<Rightarrow> reply" where
  "get_complaints avail st u tag =
     (let userId = getp u ''id'';
          query = (if truthy tag \<and> includes_str VALID_TAGS tag
                   then (\<lambda>r. Some (user_id r) = userId \<and> contains_tag (tags r) (col tag))
                   else (\<lambda>r. Some (user_id r) = userId))
      in case db_select (avail Fetch) (complaints st) query of
           Inl e \<Rightarrow> Reply 500 (Message ''Error fetching complaints'')
         | Inr rows \<Rightarrow> Reply 200 (Complaints (order_desc rows)))"

section \<open>POST /submit\<close>

text \<open>
  \<open>req.body\<close> is what a body parser left there, and undefined (\<open>None\<close>) when none ran.
  src/index.js installs \<open>express.json()\<close>, which always leaves an object; part_000 and
  part_001 install no body parser, and in part_001 only the multipart parser of the
  submit route sets \<open>req.body\<close>.

  part_000: title and description only. The handler reads
  \<open>const { title, description } = req.body\<close> before its \<open>try\<close>, which throws on an
  undefined body.
\<close>

definition post_submit_p0 ::
  "(call \<Rightarrow> bool) \<Rightarrow> nat \<Rightarrow> store \<Rightarrow> obj \<Rightarrow> obj option \<Rightarrow> reply \<times> store" where
  "post_submit_p0 avail clock st u reqBody =
     (case reqBody of
        None \<Rightarrow> (Uncaught, st)
      | Some reqbody \<Rightarrow>
          (let title' = getp reqbody ''title'';
               description' = getp reqbody ''description'';
               userId = getp u ''id''
           in if \<not> truthy title' \<or> \<not> truthy description'
              then (Reply 400 (Message ''Title and description are required''), st)
              else (case db_insert (avail Write) clock (complaints st)
                           (\<lambda>r. r\<lparr>user_id := col userId, title := col title',
                                   description := col description',
                                   status := JStr ''pending''\<rparr>) of
                      Inl e \<Rightarrow> (Reply 500 (Message ''Error inserting complaint''), st)
                    | Inr (rows, t') \<Rightarrow>
                        (Reply 201 (SubmittedRows rows), st\<lparr>complaints := t'\<rparr>))))"

text \<open>
  src/index.js: a truthy \<open>tags\<close> is checked with \<open>tags.every(...)\<close> before the \<open>try\<close>;
  on a value that is not an array the call throws there.
\<close>

definition post_submit_index ::
  "(call \<Rightarrow> bool) \<Rightarrow> nat \<Rightarrow> store \<Rightarrow> obj \<Rightarrow> obj \<Rightarrow> reply \<times> store" where
  "post_submit_index avail clock st u reqbody =
     (let title' = getp reqbody ''title'';
          description' = getp reqbody ''description'';
          tags' = getp reqbody ''tags'';
          userId = getp u ''id''
      in if \<not> truthy title' \<or> \<not> truthy description'
         then (Reply 400 (Message ''Title and description are required''), st)
         else if \<not> truthy tags'
         then (case db_insert (avail Write) clock (complaints st)
                      (\<lambda>r. r\<lparr>user_id := col userId, title := col title',
                              description := col description', status := JStr ''pending'',
                              tags := JArr []\<rparr>) of
                 Inl e \<Rightarrow> (Reply 500 (Message ''Error inserting complaint''), st)
               | Inr (rows, t') \<Rightarrow>
                   (Reply 201 (Submitted (case rows of [] \<Rightarrow> None | x # xs \<Rightarrow> Some x)),
                    st\<lparr>complaints := t'\<rparr>))
         else (case tags' of
                 Some (JArr xs) \<Rightarrow>
                   if \<not> list_all (\<lambda>tag. includes_str VALID_TAGS (Some tag)) xs
                   then (Reply 400 (Message ''Invalid tags provided''), st)
                   else (case db_insert (avail Write) clock (complaints st)
                                (\<lambda>r. r\<lparr>user_id := col userId, title := col title',
                                        description := col description',
                                        status := JStr ''pending'', tags := JArr xs\<rparr>) of
                           Inl e \<Rightarrow> (Reply 500 (Message ''Error inserting complaint''), st)
                         | Inr (rows, t') \<Rightarrow>
                             (Reply 201 (Submitted (case rows of [] \<Rightarrow> None | x # xs \<Rightarrow> Some x)),
                              st\<lparr>complaints := t'\<rparr>))
               | _ \<Rightarrow> (Uncaught, st)))"

text \<open>
  part_001. \<open>JSON.parse\<close> is the runtime's and is a parameter (\<open>None\<close>: it throws);
  \<open>parsedTags.filter\<close> throws on a value that is not an array, inside the same \<open>try\<close>.
\<close>

definition parse_tags :: "(string \<Rightarrow> json option) \<Rightarrow> json option \<Rightarrow> json list option" where
  "parse_tags json_parse tags' =
     (case tags' of
        Some (JArr xs) \<Rightarrow> Some (filter (\<lambda>tag. includes_str VALID_TAGS (Some tag)) xs)
      | Some (JStr s) \<Rightarrow>
          (case json_parse s of
             Some (JArr xs) \<Rightarrow> Some (filter (\<lambda>tag. includes_str VALID_TAGS (Some tag)) xs)
           | _ \<Rightarrow> None)
      | _ \<Rightarrow> Some (filter (\<lambda>tag. includes_str VALID_TAGS (Some tag)) []))"

text \<open>
  Modelled from the spec: the sharp library is a dependency and not under src/. The
  spec says that the upload is decoded (a decode failure is an error reported to the
  caller), resized to fit within the fixed bounding box of 1200 by 1200 preserving the
  aspect ratio, never upscaled, and re-encoded. An image is modelled by its width and
  height in pixels. \<open>nearest_div a b\<close> is the whole number nearest to \<open>a / b\<close>; a side
  never shrinks below one pixel.
\<close>

definition nearest_div :: "nat \<Rightarrow> nat \<Rightarrow> nat" where
  "nearest_div a b = (2 * a + b) div (2 * b)"

text \<open>
  Modelled from the spec: \<open>.resize(bw, bh, { fit: 'inside', withoutEnlargement: true })\<close>.
  An image inside the box is left as it is; otherwise the side that fills the box is
  set to the box and the other side is scaled by the same factor.
\<close>

definition resize_inside :: "nat \<Rightarrow> nat \<Rightarrow> nat \<times> nat \<Rightarrow> nat \<times> nat" where
  "resize_inside bw bh dims =
     (case dims of (w, h) \<Rightarrow>
        if w \<le> bw \<and> h \<le> bh then (w, h)
        else if h * bw \<le> w * bh then (bw, max 1 (nearest_div (h * bw) w))
        else (max 1 (nearest_div (w * bh) h), bh))"

text \<open>
  part_001, \<open>processImage\<close>: \<open>sharp(buffer).resize(1200, 1200, {...}).jpeg(...)\<close>.
  \<open>decode\<close> is the decoder of the library (a parameter: \<open>None\<close> when it cannot decode
  the upload, and the function throws). The result is the size of the image written.
\<close>

definition processImage :: "(string \<Rightarrow> (nat \<times> nat) option) \<Rightarrow> string \<Rightarrow> (nat \<times> nat) option" where
  "processImage decode buffer =
     (case decode buffer of
        None \<Rightarrow> None
      | Some dims \<Rightarrow> Some (resize_inside 1200 1200 dims))"

text \<open>
  part_001, \<open>uploadToStorage\<close>: \<open>base\<close> is the public address of the bucket. The bytes
  of the image play no part in what follows and are not passed on.
\<close>

definition uploadToStorage ::
  "bool \<Rightarrow> string \<Rightarrow> store \<Rightarrow> string \<Rightarrow> db_error + (string \<times> store)" where
  "uploadToStorage up base st fileName =
     (case storage_upload up (objects st) (''complaints/'' @ fileName) of
        Inl e \<Rightarrow> Inl e
      | Inr os \<Rightarrow> Inr (base @ ''complaints/'' @ fileName, st\<lparr>objects := os\<rparr>))"

text \<open>
  What a request to part_001 meets besides the store: which external calls answer, the
  clock of the store, \<open>JSON.parse\<close>, the decoder of the image library, the value
  \<open>uuidv4()\<close> returns and the public address of the bucket.
\<close>

record env =
  env_avail :: "call \<Rightarrow> bool"
  env_clock :: nat
  env_json_parse :: "string \<Rightarrow> json option"
  env_decode :: "string \<Rightarrow> (nat \<times> nat) option"
  env_uuid :: string
  env_base :: string

text \<open>
  part_001, lines 64 to 78: the upload middleware. A file is refused unless its MIME
  type starts with \<open>image/\<close>, and a file of more than 5 MiB is refused; multer hands
  the refusal to the framework with \<open>next(err)\<close> and the handler does not run. A request
  that is not a multipart form (\<open>None\<close>) is passed on with \<open>req.body\<close> and \<open>req.file\<close>
  undefined; a form without a file part is passed on with its fields.
\<close>

record upload =
  file_mimetype :: string
  file_size :: nat
  file_buffer :: string

definition fileFilter :: "upload \<Rightarrow> bool" where
  "fileFilter file = (take 6 (file_mimetype file) = ''image/'')"

definition fileSize_limit :: nat where
  "fileSize_limit = 5 * 1024 * 1024"

definition upload_single ::
  "(obj \<times> upload option) option \<Rightarrow> string + (obj option \<times> upload option)" where
  "upload_single form =
     (case form of
        None \<Rightarrow> Inr (None, None)
      | Some (flds, None) \<Rightarrow> Inr (Some flds, None)
      | Some (flds, Some file) \<Rightarrow>
          if \<not> fileFilter file then Inl ''Only image files are allowed!''
          else if fileSize_limit < file_size file then Inl ''File too large''
          else Inr (Some flds, Some file))"

definition insert_complaint ::
  "env \<Rightarrow> store \<Rightarrow> json option \<Rightarrow> json option \<Rightarrow> json option \<Rightarrow> json list \<Rightarrow> json
     \<Rightarrow> reply \<times> store" where
  "insert_complaint e st userId title' description' parsedTags imageUrl =
     (case db_insert (env_avail e Write) (env_clock e) (complaints st)
             (\<lambda>r. r\<lparr>user_id := col userId, title := col title',
                     description := col description', status := JStr ''pending'',
                     tags := JArr parsedTags, image_url := imageUrl\<rparr>) of
        Inl err \<Rightarrow> (Reply 500 (Message ''Error inserting complaint''), st)
      | Inr (rows, t') \<Rightarrow>
          (Reply 201 (Submitted (case rows of [] \<Rightarrow> None | x # xs \<Rightarrow> Some x)),
           st\<lparr>complaints := t'\<rparr>))"

text \<open>
  part_001, the handler of POST /submit. Everything is inside one \<open>try\<close>: on an
  undefined body the destructuring throws and the \<open>catch\<close> answers 500.
\<close>

definition post_submit ::
  "env \<Rightarrow> store \<Rightarrow> obj \<Rightarrow> obj option \<Rightarrow> upload option \<Rightarrow> reply \<times> store" where
  "post_submit e st u reqBody file =
     (case reqBody of
        None \<Rightarrow> (Reply 500 (Message ''Unexpected error occurred''), st)
      | Some reqbody \<Rightarrow>
     (let title' = getp reqbody ''title'';
          description' = getp reqbody ''description'';
          tags' = getp reqbody ''tags'';
          userId = getp u ''id''
      in if \<not> truthy title' \<or> \<not> truthy description'
         then (Reply 400 (Message ''Title and description are required''), st)
         else (case parse_tags (env_json_parse e) tags' of
                 None \<Rightarrow> (Reply 400 (Message ''Invalid tags format''), st)
               | Some parsedTags \<Rightarrow>
                   (case file of
                      None \<Rightarrow> insert_complaint e st userId title' description' parsedTags JNull
                    | Some f \<Rightarrow>
                        (case processImage (env_decode e) (file_buffer f) of
                           None \<Rightarrow> (Reply 500 (Message ''Error processing image''), st)
                         | Some processedImage \<Rightarrow>
                             (case uploadToStorage (env_avail e Storage) (env_base e) st
                                     (env_uuid e @ ''.jpg'') of
                                Inl err \<Rightarrow> (Reply 500 (Message ''Error processing image''), st)
                              | Inr (imageUrl, st1) \<Rightarrow>
                                  insert_complaint e st1 userId title' description' parsedTags
                                    (JStr imageUrl)))))))"

section \<open>Numbers of the upvote counter\<close>

text \<open>
  The counter is an integer column, but the handler computes with JavaScript numbers,
  which are doubles: 53 bits of precision, ties to even, and infinity from \<open>2 ^ 1024\<close>
  on. \<open>ulp m\<close> is the distance between neighbouring doubles at the size of \<open>m\<close>;
  \<open>nearest_double m\<close> is the double a whole number is read as (\<open>None\<close>: infinity).
\<close>

function ulp :: "nat \<Rightarrow> nat" where
  "ulp m = (if m < 2 ^ 53 then 1 else 2 * ulp (m div 2))"
  by pat_completeness auto
termination
  by (relation "measure (\<lambda>m. m)") auto

declare ulp.simps [simp del]

definition nearest_double :: "nat \<Rightarrow> nat option" where
  "nearest_double m =
     (let q = ulp m; d = m div q; r = m mod q;
          x = (if 2 * r < q \<or> (2 * r = q \<and> even d) then d * q else (d + 1) * q)
      in if x < 2 ^ 1024 then Some x else None)"

definition to_number :: "int \<Rightarrow> int option" where
  "to_number n =
     (if 0 \<le> n then map_option int (nearest_double (nat n))
      else map_option (\<lambda>x. - int x) (nearest_double (nat (- n))))"

text \<open>
  \<open>(complaint.upvotes || 0) + 1\<close>, as the store gets it back: a null or zero counter
  gives 1; an infinite number is serialised as null.
\<close>

definition plus_one :: "int option \<Rightarrow> int option" where
  "plus_one c =
     (case c of
        None \<Rightarrow> Some 1
      | Some n \<Rightarrow> (case to_number n of None \<Rightarrow> None | Some x \<Rightarrow> to_number (x + 1)))"

section \<open>POST /complaints/:id/upvote\<close>

text \<open>
  src/index.js and part_001, the same text: read the row, add one to
  \<open>complaint.upvotes || 0\<close>, write it back. The handler never reads \<open>req.user\<close>.
\<close>

definition post_upvote :: "(call \<Rightarrow> bool) \<Rightarrow> store \<Rightarrow> nat \<Rightarrow> reply \<times> store" where
  "post_upvote avail st complaintId =
     (case single (db_select (avail Fetch) (complaints st) (\<lambda>r. c_id r = complaintId)) of
        Inl fetchError \<Rightarrow> (Reply 404 (Message ''Complaint not found''), st)
      | Inr complaint \<Rightarrow>
          (let newUpvotes = plus_one (upvotes complaint) in
           case db_update (avail Write) (complaints st) (\<lambda>r. c_id r = complaintId)
                  (\<lambda>r. r\<lparr>upvotes := newUpvotes\<rparr>) of
             Inl updateError \<Rightarrow> (Reply 500 (Message ''Error processing upvote''), st)
           | Inr (rows, t') \<Rightarrow>
               (case single (Inr rows) of
                  Inl updateError \<Rightarrow>
                    (Reply 500 (Message ''Error processing upvote''), st\<lparr>complaints := t'\<rparr>)
                | Inr updatedComplaint \<Rightarrow>
                    (Reply 200 (Row updatedComplaint), st\<lparr>complaints := t'\<rparr>))))"

section \<open>PUT /admin/complaints/:id/status\<close>

text \<open>\<open>.update({ status })\<close>: an undefined \<open>status\<close> is dropped from the update.\<close>

definition set_status :: "json option \<Rightarrow> complaint \<Rightarrow> complaint" where
  "set_status v r = (case v of None \<Rightarrow> r | Some x \<Rightarrow> r\<lparr>status := x\<rparr>)"

text \<open>
  src/index.js: the status of the body is written as it comes. (part_000 has the same
  handler, but no body parser.)
\<close>

definition put_status_index :: "(call \<Rightarrow> bool) \<Rightarrow> store \<Rightarrow> nat \<Rightarrow> obj \<Rightarrow> reply \<times> store" where
  "put_status_index avail st cid reqbody =
     (let status' = getp reqbody ''status'' in
      case db_update (avail Write) (complaints st) (\<lambda>r. c_id r = cid) (set_status status') of
        Inl err \<Rightarrow> (Reply 500 (Message ''Error updating status''), st)
      | Inr (rows, t') \<Rightarrow> (Reply 200 (Message ''Complaint status updated''), st\<lparr>complaints := t'\<rparr>))"

text \<open>
  part_001: \<open>const { status } = req.body\<close> stands outside any \<open>try\<close> and throws on an
  undefined body; then the status is checked against the list. The message of the
  answer opens with a check mark (three bytes in UTF-8) and a space. The text of a store
  error is the store's.
\<close>

definition check_mark :: string where
  "check_mark = [CHR 0xE2, CHR 0x9C, CHR 0x85]"

definition put_status ::
  "(call \<Rightarrow> bool) \<Rightarrow> store \<Rightarrow> nat \<Rightarrow> obj option \<Rightarrow> reply \<times> store" where
  "put_status avail st cid reqBody =
     (case reqBody of
        None \<Rightarrow> (Uncaught, st)
      | Some reqbody \<Rightarrow>
     (let status' = getp reqbody ''status'' in
      if \<not> includes_str VALID_STATUS status'
      then (Reply 400 (Message ''Invalid status value''), st)
      else (case db_update (avail Write) (complaints st) (\<lambda>r. c_id r = cid)
                   (set_status status') of
              Inl err \<Rightarrow> (Reply 500 (Error ''update failed''), st)
            | Inr (rows, t') \<Rightarrow>
                (Reply 200 (Message (check_mark @ '' Complaint marked as '' @
                                     (case status' of Some (JStr s) \<Rightarrow> s | _ \<Rightarrow> []))),
                 st\<lparr>complaints := t'\<rparr>))))"

section \<open>Deleting\<close>

text \<open>part_001, DELETE /admin/complaints/:id.\<close>

definition admin_delete_complaint :: "(call \<Rightarrow> bool) \<Rightarrow> store \<Rightarrow> nat \<Rightarrow> reply \<times> store" where
  "admin_delete_complaint avail st cid =
     (case db_delete (avail Write) (complaints st) (\<lambda>r. c_id r = cid) of
        Inl err \<Rightarrow> (Reply 500 (Error ''delete failed''), st)
      | Inr t' \<Rightarrow> (Reply 200 (Message ''Complaint deleted successfully''), st\<lparr>complaints := t'\<rparr>))"

text \<open>
  part_001, DELETE /complaints/:id. \<open>reqUser\<close> is \<open>req.user\<close>, which is undefined
  (\<open>None\<close>) unless a middleware has set it; the handler reads \<open>req.user?.id\<close>.
\<close>

definition delete_complaint ::
  "(call \<Rightarrow> bool) \<Rightarrow> store \<Rightarrow> obj option \<Rightarrow> nat \<Rightarrow> reply \<times> store" where
  "delete_complaint avail st reqUser complaintId =
     (let userId = (case reqUser of None \<Rightarrow> None | Some u \<Rightarrow> getp u ''id'') in
      case single (db_select (avail Fetch) (complaints st) (\<lambda>r. c_id r = complaintId)) of
        Inl findError \<Rightarrow> (Reply 404 (Error ''Complaint not found''), st)
      | Inr complaint \<Rightarrow>
          if \<not> strict_eq (Some (user_id complaint)) userId
          then (Reply 403 (Error ''Unauthorized to delete this complaint''), st)
          else (case db_delete (avail Write) (complaints st) (\<lambda>r. c_id r = complaintId) of
                  Inl deleteError \<Rightarrow> (Reply 500 (Error ''Failed to delete complaint''), st)
                | Inr t' \<Rightarrow>
                    (Reply 200 (Message ''Complaint deleted successfully''),
                     st\<lparr>complaints := t'\<rparr>)))"

text \<open>
  part_001, DELETE /complaints/:id/image, behind \<open>authenticateToken\<close>. The file name is
  the last piece of the address; \<open>split\<close> on a truthy value that is not a string
  throws inside the \<open>try\<close>.
\<close>

definition delete_image ::
  "(call \<Rightarrow> bool) \<Rightarrow> store \<Rightarrow> obj \<Rightarrow> nat \<Rightarrow> reply \<times> store" where
  "delete_image avail st u complaintId =
     (let userId = getp u ''id'' in
      case single (db_select (avail Fetch) (complaints st) (\<lambda>r. c_id r = complaintId)) of
        Inl fetchError \<Rightarrow> (Reply 404 (Message ''Complaint not found''), st)
      | Inr complaint \<Rightarrow>
          if \<not> strict_eq (Some (user_id complaint)) userId
          then (Reply 403 (Message ''Unauthorized''), st)
          else if \<not> truthy (Some (image_url complaint))
          then (Reply 200 (Message ''Image deleted successfully''), st)
          else (case image_url complaint of
                  JStr url \<Rightarrow>
                    (let fileName = last (split_on (CHR ''/'') url) in
                     case storage_remove (avail Storage) (objects st)
                            (''complaints/'' @ fileName) of
                       Inl deleteError \<Rightarrow> (Reply 500 (Message ''Error deleting image''), st)
                     | Inr os \<Rightarrow>
                         (case db_update (avail Write) (complaints st)
                                 (\<lambda>r. c_id r = complaintId) (\<lambda>r. r\<lparr>image_url := JNull\<rparr>) of
                            Inl updateError \<Rightarrow>
                              (Reply 500 (Message ''Error updating complaint''),
                               st\<lparr>objects := os\<rparr>)
                          | Inr (rows, t') \<Rightarrow>
                              (Reply 200 (Message ''Image deleted successfully''),
                               st\<lparr>objects := os, complaints := t'\<rparr>)))
                | _ \<Rightarrow> (Reply 500 (Message ''Error deleting image''), st)))"

section \<open>Routes: a gate, then the handler\<close>

text \<open>
  A request carries the \<open>authorization\<close> header, the id of the path, the query and what
  it sent as its body. A route runs its gate on the header and, when the gate calls
  \<open>next()\<close>, the handler. In src/index.js the handler finds the parsed JSON object in
  \<open>req.body\<close> (the empty object when no JSON came); in part_000 and part_001 no body
  parser runs, so the handlers there find \<open>req.body\<close> undefined whatever was sent,
  except behind the multipart parser of the submit route of part_001.
\<close>

definition gated :: "reply + obj \<Rightarrow> store \<Rightarrow> (obj \<Rightarrow> reply \<times> store) \<Rightarrow> reply \<times> store" where
  "gated g st handler = (case g of Inl r \<Rightarrow> (r, st) | Inr u \<Rightarrow> handler u)"

definition route_get_complaints ::
  "string \<Rightarrow> nat \<Rightarrow> (call \<Rightarrow> bool) \<Rightarrow> store \<Rightarrow> wire option \<Rightarrow> json option \<Rightarrow> reply \<times> store" where
  "route_get_complaints secret now avail st h tag =
     gated (authenticateToken secret now h) st (\<lambda>u. (get_complaints avail st u tag, st))"

definition route_get_complaints_p0 ::
  "string \<Rightarrow> nat \<Rightarrow> (call \<Rightarrow> bool) \<Rightarrow> store \<Rightarrow> wire option \<Rightarrow> reply \<times> store" where
  "route_get_complaints_p0 secret now avail st h =
     gated (authenticateToken secret now h) st (\<lambda>u. (get_complaints_p0 avail st u, st))"

definition route_submit_p0 ::
  "string \<Rightarrow> nat \<Rightarrow> (call \<Rightarrow> bool) \<Rightarrow> store \<Rightarrow> wire option \<Rightarrow> obj \<Rightarrow> reply \<times> store" where
  "route_submit_p0 secret now avail st h sent =
     gated (authenticateToken secret now h) st (\<lambda>u. post_submit_p0 avail now st u None)"

definition route_submit_index ::
  "string \<Rightarrow> nat \<Rightarrow> (call \<Rightarrow> bool) \<Rightarrow> store \<Rightarrow> wire option \<Rightarrow> obj \<Rightarrow> reply \<times> store" where
  "route_submit_index secret now avail st h reqbody =
     gated (authenticateToken secret now h) st (\<lambda>u. post_submit_index avail now st u reqbody)"

text \<open>
  part_001: \<open>app.post('/submit', authenticateToken, upload.single('image'), ...)\<close>.
  \<open>form\<close> is the multipart form of the request (its fields and its file part, if any),
  or \<open>None\<close> for a request that is not multipart.
\<close>

definition route_submit ::
  "string \<Rightarrow> env \<Rightarrow> store \<Rightarrow> wire option \<Rightarrow> (obj \<times> upload option) option
     \<Rightarrow> reply \<times> store" where
  "route_submit secret e st h form =
     gated (authenticateToken secret (env_clock e) h) st
       (\<lambda>u. case upload_single form of
               Inl err \<Rightarrow> (NextErr err, st)
             | Inr (reqBody, file) \<Rightarrow> post_submit e st u reqBody file)"

definition route_upvote ::
  "string \<Rightarrow> nat \<Rightarrow> (call \<Rightarrow> bool) \<Rightarrow> store \<Rightarrow> wire option \<Rightarrow> nat \<Rightarrow> reply \<times> store" where
  "route_upvote secret now avail st h cid =
     gated (authenticateToken secret now h) st (\<lambda>u. post_upvote avail st cid)"

definition route_delete_image ::
  "string \<Rightarrow> nat \<Rightarrow> (call \<Rightarrow> bool) \<Rightarrow> store \<Rightarrow> wire option \<Rightarrow> nat \<Rightarrow> reply \<times> store" where
  "route_delete_image secret now avail st h cid =
     gated (authenticateToken secret now h) st (\<lambda>u. delete_image avail st u cid)"

text \<open>
  part_001 registers \<open>app.delete('/complaints/:id', async (req, res) => ...)\<close> with no
  middleware: nothing sets \<open>req.user\<close>, whatever the header.
\<close>

definition route_delete_complaint ::
  "(call \<Rightarrow> bool) \<Rightarrow> store \<Rightarrow> wire option \<Rightarrow> nat \<Rightarrow> reply \<times> store" where
  "route_delete_complaint avail st h cid = delete_complaint avail st None cid"

definition route_put_status_index ::
  "string \<Rightarrow> nat \<Rightarrow> (call \<Rightarrow> bool) \<Rightarrow> store \<Rightarrow> wire option \<Rightarrow> nat \<Rightarrow> obj \<Rightarrow> reply \<times> store" where
  "route_put_status_index secret now avail st h cid reqbody =
     gated (authenticateAdmin secret now h) st (\<lambda>u. put_status_index avail st cid reqbody)"

definition route_put_status ::
  "string \<Rightarrow> nat \<Rightarrow> (call \<Rightarrow> bool) \<Rightarrow> store \<Rightarrow> wire option \<Rightarrow> nat \<Rightarrow> obj \<Rightarrow> reply \<times> store" where
  "route_put_status secret now avail st h cid sent =
     gated (isAdmin secret now h) st (\<lambda>u. put_status avail st cid None)"

definition route_admin_delete ::
  "string \<Rightarrow> nat \<Rightarrow> (call \<Rightarrow> bool) \<Rightarrow> store \<Rightarrow> wire option \<Rightarrow> nat \<Rightarrow> reply \<times> store" where
  "route_admin_delete secret now avail st h cid =
     gated (isAdmin secret now h) st (\<lambda>u. admin_delete_complaint avail st cid)"

section \<open>Sample data\<close>

text \<open>A user with the admin flag, the payloads of three tokens, and a store with two complaints.\<close>

definition admin_user :: user where
  "admin_user = \<lparr>user_id_of = JStr ''u-admin'', email_of = JStr ''root@campus.example'',
                  metadata_admin = Some (JBool True)\<rparr>"

definition admin_claims :: obj where
  "admin_claims = [(''id'', JStr ''u-admin''), (''email'', JStr ''root@campus.example''),
                   (''isAdmin'', JBool True), (''iat'', JNum 0), (''exp'', JNum 3600)]"

definition ann_claims :: obj where
  "ann_claims = [(''email'', JStr ''ann@campus.example''), (''id'', JStr ''u-1''),
                 (''isAdmin'', JBool False), (''iat'', JNum 0), (''exp'', JNum 3600)]"

definition bob_claims :: obj where
  "bob_claims = [(''email'', JStr ''bob@campus.example''), (''id'', JStr ''u-2''),
                 (''isAdmin'', JBool False), (''iat'', JNum 0), (''exp'', JNum 3600)]"

definition light :: complaint where
  "light = \<lparr>c_id = 1, user_id = JStr ''u-1'', title = JStr ''Broken light'',
             description = JStr ''Hallway B'', status = JStr ''pending'',
             tags = JArr [JStr ''electricity''], image_url = JNull, upvotes = Some 0,
             created_at = 100\<rparr>"

definition chair :: complaint where
  "chair = \<lparr>c_id = 2, user_id = JStr ''u-1'', title = JStr ''Wobbly chair'',
             description = JStr ''Room 12'', status = JStr ''pending'',
             tags = JArr [JStr ''furniture''], image_url = JNull, upvotes = Some 0,
             created_at = 200\<rparr>"

definition campus_store :: store where
  "campus_store = \<lparr>complaints = [light, chair], objects = []\<rparr>"

definition up :: "call \<Rightarrow> bool" where
  "up c = True"

definition env0 :: env where
  "env0 = \<lparr>env_avail = up, env_clock = 300, env_json_parse = (\<lambda>s. None),
           env_decode = (\<lambda>b. if b = ''jpeg-4000x3000'' then Some (4000, 3000) else None), env_uuid = ''0000'',
           env_base = ''https://cdn.example/''\<rparr>"

text \<open>A submission with one unknown tag and an owner supplied by the client.\<close>

definition light_body :: obj where
  "light_body = [(''title'', JStr ''Broken light''), (''description'', JStr ''Hallway B''),
                 (''tags'', JArr [JStr ''electricity'', JStr ''bogus'']),
                 (''user_id'', JStr ''u-2'')]"

text \<open>The same submission with its tags as a JSON string, and one with known tags only.\<close>

definition light_form :: obj where
  "light_form = [(''title'', JStr ''Broken light''), (''description'', JStr ''Hallway B''),
                 (''tags'', JStr ''[\"electricity\",\"bogus\"]''),
                 (''user_id'', JStr ''u-2'')]"

definition chair_body :: obj where
  "chair_body = [(''title'', JStr ''Wobbly chair''), (''description'', JStr ''Room 12''),
                 (''tags'', JArr [JStr ''furniture'']), (''user_id'', JStr ''u-2'')]"

text \<open>An environment whose \<open>JSON.parse\<close> reads that one string.\<close>

definition env1 :: env where
  "env1 = \<lparr>env_avail = up, env_clock = 300,
           env_json_parse = (\<lambda>s. if s = ''[\"electricity\",\"bogus\"]''
                                   then Some (JArr [JStr ''electricity'', JStr ''bogus''])
                                   else None),
           env_decode = (\<lambda>b. if b = ''jpeg-4000x3000'' then Some (4000, 3000) else None),
           env_uuid = ''0000'', env_base = ''https://cdn.example/''\<rparr>"

text \<open>Two uploads: a photo, and a text file that the filter refuses.\<close>

definition photo :: upload where
  "photo = \<lparr>file_mimetype = ''image/jpeg'', file_size = 2048, file_buffer = ''jpeg-4000x3000''\<rparr>"

definition memo :: upload where
  "memo = \<lparr>file_mimetype = ''text/plain'', file_size = 12, file_buffer = ''to do: lamp''\<rparr>"

text \<open>A store with one complaint of \<open>u-2\<close> that has an image.\<close>

definition poster :: complaint where
  "poster = \<lparr>c_id = 7, user_id = JStr ''u-2'', title = JStr ''Torn poster'',
              description = JStr ''Canteen door'', status = JStr ''pending'',
              tags = JArr [JStr ''canteen''],
              image_url = JStr ''https://cdn.example/complaints/abcd.jpg'', upvotes = None,
              created_at = 150\<rparr>"

definition gallery_store :: store where
  "gallery_store = \<lparr>complaints = [light, poster], objects = [''complaints/abcd.jpg'']\<rparr>"

section \<open>Vocabulary of the properties\<close>

definition valid_tag :: "json \<Rightarrow> bool" where
  "valid_tag t = includes_str VALID_TAGS (Some t)"

definition owned_by :: "obj \<Rightarrow> complaint \<Rightarrow> bool" where
  "owned_by u r = (Some (user_id r) = getp u ''id'')"

definition newest_first :: "complaint list \<Rightarrow> bool" where
  "newest_first rows = sorted_wrt (\<lambda>a b. created_at b \<le> created_at a) rows"

definition is_created :: "reply \<Rightarrow> bool" where
  "is_created r = (case r of Reply c b \<Rightarrow> c = 201 | _ \<Rightarrow> False)"

text \<open>
  The answer is a 201 carrying a row, that row was appended to the complaints, it is
  owned by the identity of the payload \<open>u\<close>, and its status is \<open>pending\<close>.
\<close>

definition created_for :: "obj \<Rightarrow> store \<Rightarrow> reply \<times> store \<Rightarrow> bool" where
  "created_for u st out =
     (\<exists>row. fst out = Reply 201 (Submitted (Some row))
          \<and> complaints (snd out) = complaints st @ [row]
          \<and> user_id row = col (getp u ''id'') \<and> status row = JStr ''pending'')"

text \<open>
  What holds of a submit route with gate result \<open>g\<close> on every request: a 201 means that
  the gate passed a payload and a row was created for it; without a 201 no complaint
  was written.
\<close>

definition submit_safe :: "reply + obj \<Rightarrow> store \<Rightarrow> reply \<times> store \<Rightarrow> bool" where
  "submit_safe g st out =
     ((is_created (fst out) \<longrightarrow> (\<exists>u. g = Inr u \<and> created_for u st out))
    \<and> (\<not> is_created (fst out) \<longrightarrow> complaints (snd out) = complaints st))"

definition wants_fields :: "obj \<Rightarrow> bool" where
  "wants_fields reqbody =
     (truthy (getp reqbody ''title'') \<and> truthy (getp reqbody ''description''))"

text \<open>The upload middleware lets the file part of a form through, if there is one.\<close>

definition accepted :: "upload option \<Rightarrow> bool" where
  "accepted upl =
     (case upl of None \<Rightarrow> True | Some f \<Rightarrow> fileFilter f \<and> file_size f \<le> fileSize_limit)"

text \<open>The list of tags a request sent, as an array or as a string that parses to one.\<close>

definition sent_tags :: "(string \<Rightarrow> json option) \<Rightarrow> json option \<Rightarrow> json list option" where
  "sent_tags parse t =
     (case t of
        Some (JArr xs) \<Rightarrow> Some xs
      | Some (JStr s) \<Rightarrow> (case parse s of Some (JArr xs) \<Rightarrow> Some xs | _ \<Rightarrow> None)
      | _ \<Rightarrow> None)"

text \<open>The complaints that the requester \<open>uid\<close> does not own are as they were.\<close>

definition others_kept :: "json option \<Rightarrow> store \<Rightarrow> store \<Rightarrow> bool" where
  "others_kept uid st st' =
     (filter (\<lambda>r. Some (user_id r) \<noteq> uid) (complaints st')
        = filter (\<lambda>r. Some (user_id r) \<noteq> uid) (complaints st))"

text \<open>\<open>req.user?.id\<close>.\<close>

definition requester_id :: "obj option \<Rightarrow> json option" where
  "requester_id reqUser = (case reqUser of None \<Rightarrow> None | Some u \<Rightarrow> getp u ''id'')"

section \<open>Facts about the token model and the store\<close>

lemma strip_bearer_bare: "strip_bearer [Jws c k] = [Jws c k]"
  by (simp add: strip_bearer_def plain_def)

lemma strip_bearer_prefixed: "strip_bearer (plain ''Bearer '' @ [Jws c k]) = [Jws c k]"
  by (simp add: strip_bearer_def plain_def)

lemma jwt_verify_prefixed: "jwt_verify (plain ''Bearer '' @ t) secret now = Inl JwtMalformed"
  by (simp add: jwt_verify_def plain_def)

lemma jwt_verify_claims: "jwt_verify [Jws c k] secret now = Inr u \<Longrightarrow> u = c"
  by (auto simp: jwt_verify_def split: if_splits option.splits json.splits)

lemma bearer_not_empty: "plain ''Bearer '' @ t \<noteq> []"
  by (simp add: plain_def)

lemma authenticateAdmin_bearer:
  "authenticateAdmin secret now (Some (plain ''Bearer '' @ t))
     = Inl (Reply 403 (Message ''Invalid token.''))"
  using bearer_not_empty [of t] by (simp add: authenticateAdmin_def jwt_verify_prefixed)

lemma authenticateToken_bearer:
  "authenticateToken secret now (Some (plain ''Bearer '' @ t))
     = Inl (Reply 403 (Message ''Invalid token.''))"
  using bearer_not_empty [of t] by (simp add: authenticateToken_def jwt_verify_prefixed)

lemma gated_Inl: "gated (Inl r) st handler = (r, st)"
  by (simp add: gated_def)

lemma authenticateAdmin_not_admin:
  assumes "\<not> truthy (getp claims ''isAdmin'')"
  shows "\<exists>b. authenticateAdmin secret now (Some [Jws claims k]) = Inl (Reply 403 b)"
  using assms
  by (auto simp: authenticateAdmin_def dest: jwt_verify_claims split: sum.splits)

lemma isAdmin_not_admin:
  assumes "\<not> truthy (getp claims ''isAdmin'')"
  shows "\<exists>b. isAdmin secret now (Some [Jws claims k]) = Inl (Reply 403 b)"
  using assms
  by (auto simp: isAdmin_def strip_bearer_bare dest: jwt_verify_claims split: sum.splits)

lemma isAdmin_not_admin_bearer:
  assumes "\<not> truthy (getp claims ''isAdmin'')"
  shows "\<exists>b. isAdmin secret now (Some (plain ''Bearer '' @ [Jws claims k])) = Inl (Reply 403 b)"
  using assms bearer_not_empty [of "[Jws claims k]"]
  by (auto simp: isAdmin_def strip_bearer_prefixed
           dest: jwt_verify_claims split: sum.splits)

text \<open>
  The issuer of part_001: a token verifies to the payload it was issued with for one
  hour, and no longer.
\<close>

lemma generateToken_fresh:
  assumes "now < iat + 3600"
  shows "\<exists>c. jwt_verify (generateToken secret iat u) secret now = Inr c
           \<and> getp c ''id'' = Some (user_id_of u)
           \<and> getp c ''email'' = Some (email_of u)
           \<and> getp c ''isAdmin'' = Some (or_else (metadata_admin u) (JBool False))"
  using assms
  by (simp add: generateToken_def jwt_sign_def jwt_verify_def getp_def expiresIn_1h_def)

lemma generateToken_expired:
  assumes "iat + 3600 \<le> now"
  shows "jwt_verify (generateToken secret iat u) secret now = Inl TokenExpired"
  using assms
  by (simp add: generateToken_def jwt_sign_def jwt_verify_def getp_def expiresIn_1h_def)

lemma single_Inr: "single r = Inr x \<Longrightarrow> r = Inr [x]"
  by (auto simp: single_def split: sum.splits list.splits)

lemma select_single_mem:
  assumes "single (db_select a t P) = Inr x"
  shows "x \<in> set t \<and> P x"
proof -
  from assms have "filter P t = [x]"
    by (auto simp: db_select_def dest!: single_Inr split: if_splits)
  then have "x \<in> set (filter P t)" by simp
  then show ?thesis by simp
qed

lemma strict_eq_None: "\<not> strict_eq (Some v) None"
  by (cases v) simp_all

lemma strict_eq_eq: "strict_eq a b \<Longrightarrow> a = b"
  by (induction a b rule: strict_eq.induct) simp_all

section \<open>Facts about the handlers\<close>

lemma order_desc_newest_first: "newest_first (order_desc rows)"
proof -
  have "sorted (map created_at (sort_key created_at rows))"
    by (rule sorted_sort_key)
  then have "sorted_wrt (\<lambda>a b. created_at a \<le> created_at b) (sort_key created_at rows)"
    by (simp add: sorted_wrt_map)
  then show ?thesis
    by (simp add: newest_first_def order_desc_def sorted_wrt_rev)
qed

lemma set_order_desc: "set (order_desc rows) = set rows"
  by (simp add: order_desc_def)

lemma get_complaints_invalid_tag:
  "\<not> includes_str VALID_TAGS tag \<Longrightarrow>
     get_complaints avail st u tag = get_complaints avail st u None"
  by (simp add: get_complaints_def)

lemma get_complaints_rows:
  assumes "get_complaints avail st u tag = Reply 200 (Complaints rows)"
  shows "set rows \<subseteq> {r \<in> set (complaints st). owned_by u r} \<and> newest_first rows"
  using assms order_desc_newest_first
  by (auto simp: get_complaints_def Let_def db_select_def set_order_desc owned_by_def
           split: if_splits)

lemma get_complaints_all:
  assumes "\<not> includes_str VALID_TAGS tag" and "avail Fetch"
  shows "\<exists>every. get_complaints avail st u tag = Reply 200 (Complaints every)
              \<and> set every = {r \<in> set (complaints st). owned_by u r}"
  using assms
  by (auto simp: get_complaints_def Let_def db_select_def set_order_desc owned_by_def)

lemma get_complaints_p0_rows:
  "get_complaints_p0 avail st u =
     (if avail Fetch then Reply 200 (Complaints (filter (owned_by u) (complaints st)))
      else Reply 500 (Message ''Error fetching complaints''))"
  by (simp add: get_complaints_p0_def Let_def db_select_def owned_by_def [abs_def])

lemma single_filter:
  "single (db_select a t P) = Inr x \<Longrightarrow> a \<and> filter P t = [x]"
  by (auto simp: db_select_def dest!: single_Inr split: if_splits)

lemma filter_single_unique:
  assumes "filter P xs = [x]" and "y \<in> set xs" and "P y"
  shows "y = x"
proof -
  from assms(2,3) have "y \<in> set (filter P xs)" by simp
  with assms(1) show ?thesis by simp
qed

lemma filter_map_unchanged:
  assumes "\<And>x. x \<in> set xs \<Longrightarrow> f x = x \<or> (\<not> Q x \<and> \<not> Q (f x))"
  shows "filter Q (map f xs) = filter Q xs"
  using assms
proof (induction xs)
  case Nil
  then show ?case by simp
next
  case (Cons a xs)
  then have "f a = a \<or> (\<not> Q a \<and> \<not> Q (f a))" by simp
  moreover have "filter Q (map f xs) = filter Q xs" using Cons by simp
  ultimately show ?case by auto
qed

lemma filter_filter_unchanged:
  assumes "\<And>x. x \<in> set xs \<Longrightarrow> \<not> P x \<Longrightarrow> \<not> Q x"
  shows "filter Q (filter P xs) = filter Q xs"
  using assms by (induction xs) auto

lemma delete_complaint_effect:
  "snd (delete_complaint avail st reqUser cid) = st
   \<or> (\<exists>row. filter (\<lambda>r. c_id r = cid) (complaints st) = [row]
           \<and> requester_id reqUser = Some (user_id row)
           \<and> snd (delete_complaint avail st reqUser cid)
               = st\<lparr>complaints := filter (\<lambda>r. c_id r \<noteq> cid) (complaints st)\<rparr>)"
proof (cases "single (db_select (avail Fetch) (complaints st) (\<lambda>r. c_id r = cid))")
  case (Inl e)
  then show ?thesis by (simp add: delete_complaint_def)
next
  case (Inr row)
  then have f: "filter (\<lambda>r. c_id r = cid) (complaints st) = [row]"
    by (simp add: single_filter)
  show ?thesis
  proof (cases "strict_eq (Some (user_id row)) (requester_id reqUser)")
    case False
    with Inr show ?thesis by (simp add: delete_complaint_def requester_id_def)
  next
    case True
    then have o: "requester_id reqUser = Some (user_id row)" by (simp add: strict_eq_eq [symmetric])
    show ?thesis
    proof (cases "avail Write")
      case False
      with Inr True show ?thesis
        by (simp add: delete_complaint_def requester_id_def db_delete_def)
    next
      case w: True
      with Inr True have "snd (delete_complaint avail st reqUser cid)
               = st\<lparr>complaints := filter (\<lambda>r. c_id r \<noteq> cid) (complaints st)\<rparr>"
        by (simp add: delete_complaint_def requester_id_def db_delete_def)
      with f o show ?thesis by blast
    qed
  qed
qed

lemma delete_complaint_others_kept:
  "others_kept (requester_id reqUser) st (snd (delete_complaint avail st reqUser cid))"
proof -
  from delete_complaint_effect [of avail st reqUser cid]
  show ?thesis
  proof
    assume "snd (delete_complaint avail st reqUser cid) = st"
    then show ?thesis by (simp add: others_kept_def)
  next
    assume "\<exists>row. filter (\<lambda>r. c_id r = cid) (complaints st) = [row]
           \<and> requester_id reqUser = Some (user_id row)
           \<and> snd (delete_complaint avail st reqUser cid)
               = st\<lparr>complaints := filter (\<lambda>r. c_id r \<noteq> cid) (complaints st)\<rparr>"
    then obtain row where f: "filter (\<lambda>r. c_id r = cid) (complaints st) = [row]"
      and o: "requester_id reqUser = Some (user_id row)"
      and s: "snd (delete_complaint avail st reqUser cid)
               = st\<lparr>complaints := filter (\<lambda>r. c_id r \<noteq> cid) (complaints st)\<rparr>" by blast
    have "filter (\<lambda>r. Some (user_id r) \<noteq> requester_id reqUser)
            (filter (\<lambda>r. c_id r \<noteq> cid) (complaints st))
          = filter (\<lambda>r. Some (user_id r) \<noteq> requester_id reqUser) (complaints st)"
    proof (rule filter_filter_unchanged)
      fix x assume x: "x \<in> set (complaints st)" and "\<not> c_id x \<noteq> cid"
      then have "x = row" using filter_single_unique [OF f x] by simp
      with o show "\<not> Some (user_id x) \<noteq> requester_id reqUser" by simp
    qed
    with s show ?thesis by (simp add: others_kept_def)
  qed
qed

lemma route_delete_complaint_unchanged:
  "snd (route_delete_complaint avail st h cid) = st"
  by (simp add: route_delete_complaint_def delete_complaint_def strict_eq_None split: sum.splits)

lemma delete_image_effect:
  "snd (delete_image avail st u cid) = st
   \<or> (\<exists>row url. filter (\<lambda>r. c_id r = cid) (complaints st) = [row]
           \<and> getp u ''id'' = Some (user_id row)
           \<and> image_url row = JStr url
           \<and> objects (snd (delete_image avail st u cid))
               = filter (\<lambda>n. n \<noteq> ''complaints/'' @ last (split_on (CHR ''/'') url)) (objects st)
           \<and> (complaints (snd (delete_image avail st u cid)) = complaints st
              \<or> complaints (snd (delete_image avail st u cid))
                  = map (\<lambda>r. if c_id r = cid then r\<lparr>image_url := JNull\<rparr> else r)
                        (complaints st)))"
proof (cases "single (db_select (avail Fetch) (complaints st) (\<lambda>r. c_id r = cid))")
  case (Inl e)
  then show ?thesis by (simp add: delete_image_def)
next
  case (Inr row)
  then have f: "filter (\<lambda>r. c_id r = cid) (complaints st) = [row]"
    by (simp add: single_filter)
  show ?thesis
  proof (cases "strict_eq (Some (user_id row)) (getp u ''id'')")
    case False
    with Inr show ?thesis by (simp add: delete_image_def)
  next
    case True
    then have o: "getp u ''id'' = Some (user_id row)" by (simp add: strict_eq_eq [symmetric])
    show ?thesis
    proof (cases "image_url row")
      case (JStr url)
      with Inr True f o show ?thesis
        by (auto simp: delete_image_def Let_def storage_remove_def db_update_def
                 split: sum.splits if_splits)
    qed (use Inr True in \<open>simp_all add: delete_image_def\<close>)
  qed
qed

lemma delete_image_others_kept:
  "others_kept (getp u ''id'') st (snd (delete_image avail st u cid))"
proof -
  from delete_image_effect [of avail st u cid]
  show ?thesis
  proof
    assume "snd (delete_image avail st u cid) = st"
    then show ?thesis by (simp add: others_kept_def)
  next
    assume "\<exists>row url. filter (\<lambda>r. c_id r = cid) (complaints st) = [row]
           \<and> getp u ''id'' = Some (user_id row)
           \<and> image_url row = JStr url
           \<and> objects (snd (delete_image avail st u cid))
               = filter (\<lambda>n. n \<noteq> ''complaints/'' @ last (split_on (CHR ''/'') url)) (objects st)
           \<and> (complaints (snd (delete_image avail st u cid)) = complaints st
              \<or> complaints (snd (delete_image avail st u cid))
                  = map (\<lambda>r. if c_id r = cid then r\<lparr>image_url := JNull\<rparr> else r)
                        (complaints st))"
    then obtain row where f: "filter (\<lambda>r. c_id r = cid) (complaints st) = [row]"
      and o: "getp u ''id'' = Some (user_id row)"
      and c: "complaints (snd (delete_image avail st u cid)) = complaints st
              \<or> complaints (snd (delete_image avail st u cid))
                  = map (\<lambda>r. if c_id r = cid then r\<lparr>image_url := JNull\<rparr> else r)
                        (complaints st)" by blast
    have "filter (\<lambda>r. Some (user_id r) \<noteq> getp u ''id'')
            (map (\<lambda>r. if c_id r = cid then r\<lparr>image_url := JNull\<rparr> else r) (complaints st))
          = filter (\<lambda>r. Some (user_id r) \<noteq> getp u ''id'') (complaints st)"
    proof (rule filter_map_unchanged)
      fix x assume x: "x \<in> set (complaints st)"
      show "(if c_id x = cid then x\<lparr>image_url := JNull\<rparr> else x) = x
            \<or> (\<not> Some (user_id x) \<noteq> getp u ''id''
               \<and> \<not> Some (user_id (if c_id x = cid then x\<lparr>image_url := JNull\<rparr> else x))
                      \<noteq> getp u ''id'')"
      proof (cases "c_id x = cid")
        case True
        then have "x = row" using filter_single_unique [OF f x] by simp
        with o True show ?thesis by simp
      next
        case False
        then show ?thesis by simp
      qed
    qed
    with c show ?thesis by (auto simp: others_kept_def)
  qed
qed

lemma route_delete_image_handler:
  "route_delete_image secret now avail st h cid
     = (case authenticateToken secret now h of
          Inl r \<Rightarrow> (r, st)
        | Inr u \<Rightarrow> delete_image avail st u cid)"
  by (simp add: route_delete_image_def gated_def)

lemma route_upvote_handler:
  "route_upvote secret now avail st h cid
     = (case authenticateToken secret now h of
          Inl r \<Rightarrow> (r, st)
        | Inr u \<Rightarrow> post_upvote avail st cid)"
  by (simp add: route_upvote_def gated_def)

lemma post_upvote_effect:
  "snd (post_upvote avail st cid) = st
   \<or> (\<exists>row. filter (\<lambda>r. c_id r = cid) (complaints st) = [row]
           \<and> snd (post_upvote avail st cid)
               = st\<lparr>complaints :=
                     map (\<lambda>x. if c_id x = cid then x\<lparr>upvotes := plus_one (upvotes row)\<rparr> else x)
                         (complaints st)\<rparr>)"
proof (cases "single (db_select (avail Fetch) (complaints st) (\<lambda>r. c_id r = cid))")
  case (Inl e)
  then show ?thesis by (simp add: post_upvote_def)
next
  case (Inr row)
  then have f: "filter (\<lambda>r. c_id r = cid) (complaints st) = [row]"
    by (simp add: single_filter)
  with Inr show ?thesis
    by (auto simp: post_upvote_def Let_def db_update_def single_def split: sum.splits if_splits list.splits)
qed

lemma post_upvote_succeeds:
  assumes "avail Fetch" and "avail Write"
      and "filter (\<lambda>x. c_id x = cid) (complaints st) = [row]"
  shows "post_upvote avail st cid
           = (Reply 200 (Row (row\<lparr>upvotes := plus_one (upvotes row)\<rparr>)),
              st\<lparr>complaints :=
                   map (\<lambda>x. if c_id x = cid then x\<lparr>upvotes := plus_one (upvotes row)\<rparr> else x)
                       (complaints st)\<rparr>)"
  using assms
  by (simp add: post_upvote_def db_select_def single_def db_update_def Let_def)

lemma put_status_rejects:
  "\<not> includes_str VALID_STATUS (getp reqbody ''status'') \<Longrightarrow>
     put_status avail st cid (Some reqbody) = (Reply 400 (Message ''Invalid status value''), st)"
  by (simp add: put_status_def)

lemma route_put_status_never_writes:
  "snd (route_put_status secret now avail st h cid sent) = st
   \<and> (\<forall>b. fst (route_put_status secret now avail st h cid sent) \<noteq> Reply 400 b)"
  by (auto simp: route_put_status_def gated_def put_status_def isAdmin_def
           split: sum.splits option.splits if_splits)

lemma route_submit_p0_never_writes:
  "snd (route_submit_p0 secret now avail st h sent) = st
   \<and> \<not> is_created (fst (route_submit_p0 secret now avail st h sent))"
  by (auto simp: route_submit_p0_def gated_def post_submit_p0_def authenticateToken_def is_created_def
           split: sum.splits option.splits if_splits)

lemma insert_complaint_created:
  assumes "env_avail e Write"
  shows "\<exists>row. insert_complaint e st userId t d ts img
                 = (Reply 201 (Submitted (Some row)), st\<lparr>complaints := complaints st @ [row]\<rparr>)
              \<and> user_id row = col userId \<and> status row = JStr ''pending''
              \<and> tags row = JArr ts \<and> image_url row = img"
  using assms by (simp add: insert_complaint_def db_insert_def Let_def)

lemma insert_complaint_cases:
  "(\<not> is_created (fst (insert_complaint e st userId t d ts img))
      \<and> snd (insert_complaint e st userId t d ts img) = st)
   \<or> (\<exists>row. insert_complaint e st userId t d ts img
                 = (Reply 201 (Submitted (Some row)), st\<lparr>complaints := complaints st @ [row]\<rparr>)
            \<and> user_id row = col userId \<and> status row = JStr ''pending''
            \<and> tags row = JArr ts \<and> image_url row = img)"
proof (cases "env_avail e Write")
  case True
  from insert_complaint_created [OF True] show ?thesis by blast
next
  case False
  then show ?thesis by (simp add: insert_complaint_def db_insert_def is_created_def)
qed

lemma insert_complaint_not_400:
  "fst (insert_complaint e st userId t d ts img) \<noteq> Reply 400 b"
  by (simp add: insert_complaint_def db_insert_def Let_def)

lemma sent_tags_parsed:
  "sent_tags parse t = Some xs \<Longrightarrow> parse_tags parse t = Some (filter valid_tag xs)"
  by (auto simp: sent_tags_def parse_tags_def valid_tag_def [abs_def]
           split: option.splits json.splits)

lemma parse_tags_None:
  "(parse_tags jp t = None) = (\<exists>s. t = Some (JStr s) \<and> (\<forall>xs. jp s \<noteq> Some (JArr xs)))"
  by (auto simp: parse_tags_def split: option.splits json.splits)

lemma post_submit_400_fields:
  "\<not> wants_fields reqbody \<Longrightarrow>
     post_submit e st u (Some reqbody) file
       = (Reply 400 (Message ''Title and description are required''), st)"
  by (auto simp: wants_fields_def post_submit_def Let_def)

lemma post_submit_steps:
  assumes "wants_fields reqbody"
      and "parse_tags (env_json_parse e) (getp reqbody ''tags'') = Some ys"
  shows "post_submit e st u (Some reqbody) file
           = (case file of
                None \<Rightarrow> insert_complaint e st (getp u ''id'') (getp reqbody ''title'')
                          (getp reqbody ''description'') ys JNull
              | Some f \<Rightarrow>
                  (case processImage (env_decode e) (file_buffer f) of
                     None \<Rightarrow> (Reply 500 (Message ''Error processing image''), st)
                   | Some processedImage \<Rightarrow>
                       (case uploadToStorage (env_avail e Storage) (env_base e) st
                               (env_uuid e @ ''.jpg'') of
                          Inl err \<Rightarrow> (Reply 500 (Message ''Error processing image''), st)
                        | Inr (imageUrl, st1) \<Rightarrow>
                            insert_complaint e st1 (getp u ''id'') (getp reqbody ''title'')
                              (getp reqbody ''description'') ys (JStr imageUrl))))"
  using assms by (simp add: wants_fields_def post_submit_def Let_def)

lemma uploadToStorage_cases:
  "uploadToStorage a b st name = Inr (url, st1) \<Longrightarrow>
     url = b @ ''complaints/'' @ name \<and> complaints st1 = complaints st
     \<and> objects st1 = objects st @ [''complaints/'' @ name]"
  by (auto simp: uploadToStorage_def storage_upload_def split: if_splits)

lemma post_submit_created_row:
  assumes w: "wants_fields reqbody"
      and p: "parse_tags (env_json_parse e) (getp reqbody ''tags'') = Some ys"
      and c: "is_created (fst (post_submit e st u (Some reqbody) file))"
  shows "\<exists>row. fst (post_submit e st u (Some reqbody) file) = Reply 201 (Submitted (Some row))
              \<and> complaints (snd (post_submit e st u (Some reqbody) file)) = complaints st @ [row]
              \<and> user_id row = col (getp u ''id'') \<and> status row = JStr ''pending''
              \<and> tags row = JArr ys"
proof (cases "file")
  case None
  with c have ic: "is_created (fst (insert_complaint e st (getp u ''id'') (getp reqbody ''title'')
                          (getp reqbody ''description'') ys JNull))"
    by (simp add: post_submit_steps [OF w p])
  from insert_complaint_cases [of e st "getp u ''id''" "getp reqbody ''title''"
         "getp reqbody ''description''" ys JNull] ic
  obtain row where "insert_complaint e st (getp u ''id'') (getp reqbody ''title'')
                          (getp reqbody ''description'') ys JNull
                 = (Reply 201 (Submitted (Some row)), st\<lparr>complaints := complaints st @ [row]\<rparr>)
            \<and> user_id row = col (getp u ''id'') \<and> status row = JStr ''pending''
            \<and> tags row = JArr ys \<and> image_url row = JNull" by blast
  with None show ?thesis by (simp add: post_submit_steps [OF w p])
next
  case (Some f)
  show ?thesis
  proof (cases "processImage (env_decode e) (file_buffer f)")
    case None
    with Some c show ?thesis by (simp add: post_submit_steps [OF w p] is_created_def)
  next
    case (Some img)
    note img = Some
    show ?thesis
    proof (cases "uploadToStorage (env_avail e Storage) (env_base e) st (env_uuid e @ ''.jpg'')")
      case (Inl err)
      with \<open>file = Some f\<close> img c show ?thesis
        by (simp add: post_submit_steps [OF w p] is_created_def)
    next
      case (Inr pr)
      obtain url st1 where pr: "pr = (url, st1)" by (cases pr)
      from Inr pr have cs: "complaints st1 = complaints st"
        using uploadToStorage_cases by blast
      from \<open>file = Some f\<close> img Inr pr
      have eq: "post_submit e st u (Some reqbody) file
                  = insert_complaint e st1 (getp u ''id'') (getp reqbody ''title'')
                      (getp reqbody ''description'') ys (JStr url)"
        by (simp add: post_submit_steps [OF w p])
      with c have ic: "is_created (fst (insert_complaint e st1 (getp u ''id'')
                         (getp reqbody ''title'') (getp reqbody ''description'') ys (JStr url)))"
        by simp
      from insert_complaint_cases [of e st1 "getp u ''id''" "getp reqbody ''title''"
             "getp reqbody ''description''" ys "JStr url"] ic
      obtain row where "insert_complaint e st1 (getp u ''id'') (getp reqbody ''title'')
                          (getp reqbody ''description'') ys (JStr url)
                 = (Reply 201 (Submitted (Some row)), st1\<lparr>complaints := complaints st1 @ [row]\<rparr>)
            \<and> user_id row = col (getp u ''id'') \<and> status row = JStr ''pending''
            \<and> tags row = JArr ys \<and> image_url row = JStr url" by blast
      with eq cs show ?thesis by simp
    qed
  qed
qed

lemma post_submit_no_file:
  assumes w: "wants_fields reqbody"
      and p: "parse_tags (env_json_parse e) (getp reqbody ''tags'') = Some ys"
      and a: "env_avail e Write"
  shows "\<exists>row. post_submit e st u (Some reqbody) None
                 = (Reply 201 (Submitted (Some row)), st\<lparr>complaints := complaints st @ [row]\<rparr>)
              \<and> user_id row = col (getp u ''id'') \<and> status row = JStr ''pending''
              \<and> tags row = JArr ys \<and> image_url row = JNull"
  using insert_complaint_created [OF a] by (simp add: post_submit_steps [OF w p])

lemma post_submit_with_file:
  assumes w: "wants_fields reqbody"
      and p: "parse_tags (env_json_parse e) (getp reqbody ''tags'') = Some ys"
      and d: "env_decode e (file_buffer f) = Some dims"
      and s: "env_avail e Storage" and n: "''complaints/'' @ env_uuid e @ ''.jpg'' \<notin> set (objects st)"
      and a: "env_avail e Write"
  shows "\<exists>row. post_submit e st u (Some reqbody) (Some f)
                 = (Reply 201 (Submitted (Some row)),
                    st\<lparr>objects := objects st @ [''complaints/'' @ env_uuid e @ ''.jpg''],
                       complaints := complaints st @ [row]\<rparr>)
              \<and> user_id row = col (getp u ''id'') \<and> status row = JStr ''pending''
              \<and> tags row = JArr ys
              \<and> image_url row = JStr (env_base e @ ''complaints/'' @ env_uuid e @ ''.jpg'')"
proof -
  let ?st1 = "st\<lparr>objects := objects st @ [''complaints/'' @ env_uuid e @ ''.jpg'']\<rparr>"
  let ?url = "env_base e @ ''complaints/'' @ env_uuid e @ ''.jpg''"
  have up: "uploadToStorage (env_avail e Storage) (env_base e) st (env_uuid e @ ''.jpg'')
              = Inr (?url, ?st1)"
    using s n by (simp add: uploadToStorage_def storage_upload_def)
  have pi: "processImage (env_decode e) (file_buffer f) = Some (resize_inside 1200 1200 dims)"
    using d by (simp add: processImage_def)
  have eq: "post_submit e st u (Some reqbody) (Some f)
              = insert_complaint e ?st1 (getp u ''id'') (getp reqbody ''title'')
                  (getp reqbody ''description'') ys (JStr ?url)"
    by (simp add: post_submit_steps [OF w p] up pi)
  from insert_complaint_created [OF a, of ?st1 "getp u ''id''" "getp reqbody ''title''"
         "getp reqbody ''description''" ys "JStr ?url"]
  show ?thesis by (simp add: eq)
qed

lemma post_submit_tags_400:
  assumes "wants_fields reqbody"
  shows "(fst (post_submit e st u (Some reqbody) file) = Reply 400 (Message ''Invalid tags format''))
        = (\<exists>s. getp reqbody ''tags'' = Some (JStr s)
              \<and> (\<forall>xs. env_json_parse e s \<noteq> Some (JArr xs)))"
  using assms
  by (auto simp: wants_fields_def post_submit_def Let_def parse_tags_None [symmetric]
                 insert_complaint_not_400
           split: option.splits sum.splits)

lemma post_submit_400_store:
  assumes "fst (post_submit e st u reqBody file) = Reply 400 b"
  shows "snd (post_submit e st u reqBody file) = st"
  using assms
  by (auto simp: post_submit_def Let_def insert_complaint_not_400
           split: option.splits sum.splits if_splits)

lemma post_submit_not_created:
  assumes w: "wants_fields reqbody"
      and p: "parse_tags (env_json_parse e) (getp reqbody ''tags'') = Some ys"
      and c: "\<not> is_created (fst (post_submit e st u (Some reqbody) file))"
  shows "complaints (snd (post_submit e st u (Some reqbody) file)) = complaints st"
proof (cases "file")
  case None
  with c have ic: "\<not> is_created (fst (insert_complaint e st (getp u ''id'')
                     (getp reqbody ''title'') (getp reqbody ''description'') ys JNull))"
    by (simp add: post_submit_steps [OF w p])
  from insert_complaint_cases [of e st "getp u ''id''" "getp reqbody ''title''"
         "getp reqbody ''description''" ys JNull] ic
  have "snd (insert_complaint e st (getp u ''id'') (getp reqbody ''title'')
               (getp reqbody ''description'') ys JNull) = st"
    by (auto simp: is_created_def)
  with None show ?thesis by (simp add: post_submit_steps [OF w p])
next
  case (Some f)
  show ?thesis
  proof (cases "processImage (env_decode e) (file_buffer f)")
    case None
    with Some show ?thesis by (simp add: post_submit_steps [OF w p])
  next
    case (Some img)
    note img = Some
    show ?thesis
    proof (cases "uploadToStorage (env_avail e Storage) (env_base e) st (env_uuid e @ ''.jpg'')")
      case (Inl err)
      with \<open>file = Some f\<close> img show ?thesis by (simp add: post_submit_steps [OF w p])
    next
      case (Inr pr)
      obtain url st1 where pr: "pr = (url, st1)" by (cases pr)
      from Inr pr have cs: "complaints st1 = complaints st"
        using uploadToStorage_cases by blast
      from \<open>file = Some f\<close> img Inr pr
      have eq: "post_submit e st u (Some reqbody) file
                  = insert_complaint e st1 (getp u ''id'') (getp reqbody ''title'')
                      (getp reqbody ''description'') ys (JStr url)"
        by (simp add: post_submit_steps [OF w p])
      with c have ic: "\<not> is_created (fst (insert_complaint e st1 (getp u ''id'')
                         (getp reqbody ''title'') (getp reqbody ''description'') ys (JStr url)))"
        by simp
      from insert_complaint_cases [of e st1 "getp u ''id''" "getp reqbody ''title''"
             "getp reqbody ''description''" ys "JStr url"] ic
      have "snd (insert_complaint e st1 (getp u ''id'') (getp reqbody ''title'')
                   (getp reqbody ''description'') ys (JStr url)) = st1"
        by (auto simp: is_created_def)
      with eq cs show ?thesis by simp
    qed
  qed
qed

lemma post_submit_safe:
  "submit_safe (Inr u) st (post_submit e st u reqBody file)"
proof (cases reqBody)
  case None
  then show ?thesis by (simp add: submit_safe_def post_submit_def is_created_def)
next
  case (Some reqbody)
  note body = Some
  show ?thesis
  proof (cases "wants_fields reqbody")
    case False
    with body show ?thesis
      by (simp add: post_submit_400_fields submit_safe_def is_created_def)
  next
    case True
    show ?thesis
    proof (cases "parse_tags (env_json_parse e) (getp reqbody ''tags'')")
      case None
      with True body show ?thesis
        by (simp add: wants_fields_def post_submit_def Let_def submit_safe_def is_created_def)
    next
      case (Some ys)
      have a: "is_created (fst (post_submit e st u (Some reqbody) file))
                 \<longrightarrow> created_for u st (post_submit e st u (Some reqbody) file)"
      proof
        assume "is_created (fst (post_submit e st u (Some reqbody) file))"
        from post_submit_created_row [OF True Some this]
        show "created_for u st (post_submit e st u (Some reqbody) file)"
          unfolding created_for_def by blast
      qed
      have b: "\<not> is_created (fst (post_submit e st u (Some reqbody) file))
                 \<longrightarrow> complaints (snd (post_submit e st u (Some reqbody) file)) = complaints st"
        using post_submit_not_created [OF True Some] by blast
      from a b body show ?thesis by (simp add: submit_safe_def)
    qed
  qed
qed

lemma post_submit_index_400_fields:
  "\<not> wants_fields reqbody \<Longrightarrow>
     post_submit_index avail clock st u reqbody
       = (Reply 400 (Message ''Title and description are required''), st)"
  by (auto simp: wants_fields_def post_submit_index_def Let_def)

lemma post_submit_index_stores:
  assumes w: "wants_fields reqbody"
      and t: "\<not> truthy (getp reqbody ''tags'')
              \<or> (\<exists>xs. getp reqbody ''tags'' = Some (JArr xs) \<and> list_all valid_tag xs)"
      and a: "avail Write"
  shows "\<exists>row. post_submit_index avail clock st u reqbody
                 = (Reply 201 (Submitted (Some row)), st\<lparr>complaints := complaints st @ [row]\<rparr>)
              \<and> user_id row = col (getp u ''id'') \<and> status row = JStr ''pending''"
  using assms
  by (auto simp: wants_fields_def post_submit_index_def Let_def db_insert_def
                 valid_tag_def [abs_def])

lemma post_submit_index_safe:
  "submit_safe (Inr u) st (post_submit_index avail clock st u reqbody)"
  by (auto simp: submit_safe_def created_for_def post_submit_index_def Let_def db_insert_def
                 is_created_def split: option.splits json.splits)

lemma post_submit_index_rejects:
  assumes "wants_fields reqbody"
      and "getp reqbody ''tags'' = Some (JArr xs)" and "\<not> list_all valid_tag xs"
  shows "post_submit_index avail clock st u reqbody
           = (Reply 400 (Message ''Invalid tags provided''), st)"
  using assms
  by (simp add: wants_fields_def post_submit_index_def Let_def valid_tag_def [abs_def])

lemma authenticateToken_not_created:
  "authenticateToken secret now h = Inl r \<Longrightarrow> \<not> is_created r"
  by (auto simp: authenticateToken_def is_created_def split: option.splits if_splits sum.splits)

lemma route_submit_index_handler:
  "authenticateToken secret now h = Inr u \<Longrightarrow>
     route_submit_index secret now avail st h reqbody = post_submit_index avail now st u reqbody"
  by (simp add: route_submit_index_def gated_def)

lemma route_submit_handler:
  "authenticateToken secret (env_clock e) h = Inr u \<Longrightarrow>
   upload_single form = Inr (reqBody, file) \<Longrightarrow>
     route_submit secret e st h form = post_submit e st u reqBody file"
  by (simp add: route_submit_def gated_def)

lemma route_submit_index_safe:
  "submit_safe (authenticateToken secret now h) st
     (route_submit_index secret now avail st h reqbody)"
proof (cases "authenticateToken secret now h")
  case (Inl r)
  then show ?thesis
    using authenticateToken_not_created [OF Inl]
    by (simp add: route_submit_index_def gated_def submit_safe_def)
next
  case (Inr u)
  then show ?thesis
    using post_submit_index_safe [of u st avail now reqbody]
    by (simp add: route_submit_index_def gated_def)
qed

lemma route_submit_safe:
  "submit_safe (authenticateToken secret (env_clock e) h) st (route_submit secret e st h form)"
proof (cases "authenticateToken secret (env_clock e) h")
  case (Inl r)
  then show ?thesis
    using authenticateToken_not_created [OF Inl]
    by (simp add: route_submit_def gated_def submit_safe_def)
next
  case (Inr u)
  show ?thesis
  proof (cases "upload_single form")
    case (Inl err)
    with Inr show ?thesis
      by (simp add: route_submit_def gated_def submit_safe_def is_created_def)
  next
    case (Inr pr)
    obtain reqBody file' where pr: "pr = (reqBody, file')" by (cases pr)
    from \<open>authenticateToken secret (env_clock e) h = Inr u\<close> Inr pr
    show ?thesis
      using post_submit_safe [of u st e reqBody file']
      by (simp add: route_submit_def gated_def)
  qed
qed

section \<open>Facts about the counter and the resize\<close>

lemma ulp_small: "m < 2 ^ 53 \<Longrightarrow> ulp m = 1"
  by (simp add: ulp.simps)

lemma ulp_2_53: "ulp 9007199254740992 = 2"
proof -
  have "ulp 9007199254740992 = 2 * ulp (9007199254740992 div 2)"
    by (subst ulp.simps) simp
  also have "9007199254740992 div 2 = (4503599627370496 :: nat)" by simp
  also have "ulp 4503599627370496 = 1" by (rule ulp_small) simp
  finally show ?thesis by simp
qed

lemma ulp_2_53_1: "ulp 9007199254740993 = 2"
proof -
  have "ulp 9007199254740993 = 2 * ulp (9007199254740993 div 2)"
    by (subst ulp.simps) simp
  also have "9007199254740993 div 2 = (4503599627370496 :: nat)" by simp
  also have "ulp 4503599627370496 = 1" by (rule ulp_small) simp
  finally show ?thesis by simp
qed

lemma nearest_double_small: "m < 2 ^ 53 \<Longrightarrow> nearest_double m = Some m"
proof -
  assume a: "m < 2 ^ 53"
  have "(2::nat) ^ 53 \<le> 2 ^ 1024" by (rule power_increasing) simp_all
  with a have "m < 2 ^ 1024" by linarith
  with a show ?thesis by (simp add: nearest_double_def ulp_small)
qed

lemma nearest_double_2_53: "nearest_double 9007199254740992 = Some 9007199254740992"
  by (simp add: nearest_double_def ulp_2_53 Let_def)

lemma nearest_double_2_53_1: "nearest_double 9007199254740993 = Some 9007199254740992"
  by (simp add: nearest_double_def ulp_2_53_1 Let_def)

lemma to_number_small: "0 \<le> n \<Longrightarrow> n < 2 ^ 53 \<Longrightarrow> to_number n = Some n"
proof -
  assume a: "0 \<le> n" "n < 2 ^ 53"
  then have "nat n < 2 ^ 53" by (simp add: nat_less_iff)
  then have "nearest_double (nat n) = Some (nat n)" by (rule nearest_double_small)
  with a show ?thesis by (simp add: to_number_def)
qed

lemma to_number_2_53: "to_number 9007199254740992 = Some 9007199254740992"
  by (simp add: to_number_def nearest_double_2_53)

lemma to_number_2_53_1: "to_number 9007199254740993 = Some 9007199254740992"
  by (simp add: to_number_def nearest_double_2_53_1)

lemma plus_one_exact:
  assumes "0 \<le> n" and "n < 2 ^ 53"
  shows "plus_one (Some n) = Some (n + 1)"
proof (cases "n + 1 < 2 ^ 53")
  case True
  with assms show ?thesis by (simp add: plus_one_def to_number_small)
next
  case False
  with assms have "n = 9007199254740991" by simp
  with assms show ?thesis by (simp add: plus_one_def to_number_small to_number_2_53)
qed

lemma plus_one_2_53: "plus_one (Some (2 ^ 53)) = Some (2 ^ 53)"
  by (simp add: plus_one_def to_number_2_53 to_number_2_53_1)

lemma nearest_div_bounds:
  assumes "0 < b"
  shows "2 * (nearest_div a b * b) \<le> 2 * a + b \<and> 2 * a < 2 * (nearest_div a b * b) + b"
proof -
  define q where "q = (2 * a + b) div (2 * b)"
  define r where "r = (2 * a + b) mod (2 * b)"
  have e: "2 * a + b = (2 * b) * q + r" by (simp add: q_def r_def)
  have r: "r < 2 * b" using assms by (simp add: r_def)
  have "2 * (q * b) \<le> 2 * a + b" using e by (simp add: algebra_simps)
  moreover have "2 * a < 2 * (q * b) + b" using e r by (simp add: algebra_simps)
  ultimately show ?thesis by (simp add: nearest_div_def q_def)
qed

lemma nearest_div_le:
  assumes "0 < b" and "a \<le> c * b"
  shows "nearest_div a b \<le> c"
proof (rule ccontr)
  assume "\<not> nearest_div a b \<le> c"
  then have "c + 1 \<le> nearest_div a b" by simp
  then have "(c + 1) * b \<le> nearest_div a b * b" by (rule mult_le_mono1)
  moreover have "2 * (nearest_div a b * b) \<le> 2 * a + b"
    using nearest_div_bounds [OF assms(1)] by blast
  ultimately have "2 * ((c + 1) * b) \<le> 2 * a + b" by linarith
  then have "2 * (c * b) + 2 * b \<le> 2 * a + b" by (simp add: algebra_simps)
  with assms show False by linarith
qed

lemma scaled_side:
  assumes w: "bw < w" and h: "0 < h" and bw: "0 < bw" and bh: "0 < bh" and fit: "h * bw \<le> w * bh"
  defines "h' \<equiv> max 1 (nearest_div (h * bw) w)"
  shows "0 < h' \<and> h' \<le> bh \<and> h' \<le> h \<and> \<bar>int h' * int w - int h * int bw\<bar> < int w"
proof -
  have w0: "0 < w" using w by simp
  let ?q = "nearest_div (h * bw) w"
  have b: "2 * (?q * w) \<le> 2 * (h * bw) + w \<and> 2 * (h * bw) < 2 * (?q * w) + w"
    by (rule nearest_div_bounds [OF w0])
  have q_bh: "?q \<le> bh" using fit by (intro nearest_div_le [OF w0]) (simp add: mult.commute)
  have "h * bw \<le> h * w" using w by simp
  then have q_h: "?q \<le> h" by (intro nearest_div_le [OF w0])
  have pos: "0 < h'" by (simp add: h'_def)
  have le_bh: "h' \<le> bh" using q_bh bh by (simp add: h'_def)
  have le_h: "h' \<le> h" using q_h h by (simp add: h'_def)
  have near: "\<bar>int h' * int w - int h * int bw\<bar> < int w"
  proof (cases "?q = 0")
    case True
    then have hq: "h' = 1" by (simp add: h'_def)
    from b True have "2 * (h * bw) < w" by simp
    moreover have "0 < h * bw" using h bw by simp
    ultimately have "int (h * bw) < int w \<and> 0 < int (h * bw)" by linarith
    then show ?thesis using hq by simp
  next
    case False
    then have hq: "h' = ?q" by (simp add: h'_def)
    from b have "2 * int (?q * w) \<le> 2 * int (h * bw) + int w
               \<and> 2 * int (h * bw) < 2 * int (?q * w) + int w"
      by (metis (no_types, opaque_lifting) of_nat_add of_nat_le_iff of_nat_less_iff of_nat_mult of_nat_numeral)
    then have "\<bar>int (?q * w) - int (h * bw)\<bar> < int w" using w0 by linarith
    then show ?thesis using hq by simp
  qed
  from pos le_bh le_h near show ?thesis by blast
qed

section \<open>Sample requests, evaluated\<close>

lemma upload_single_accepted:
  "accepted upl \<Longrightarrow> upload_single (Some (flds, upl)) = Inr (Some flds, upl)"
  by (cases upl) (simp_all add: accepted_def upload_single_def)

lemma poster_image_removed:
  "delete_image up gallery_store bob_claims 7
     = (Reply 200 (Message ''Image deleted successfully''),
        \<lparr>complaints = [light, poster\<lparr>image_url := JNull\<rparr>], objects = []\<rparr>)"
  by (simp add: bob_claims_def getp_def delete_image_def db_update_def db_select_def single_def
        up_def gallery_store_def light_def poster_def storage_remove_def Let_def)

lemma poster_image_kept:
  "route_delete_image ''s3cret'' 10 up gallery_store (Some [Jws ann_claims ''s3cret'']) 7
     = (Reply 403 (Message ''Unauthorized''), gallery_store)"
  by (simp add: route_delete_image_def gated_def authenticateToken_def jwt_verify_def
        ann_claims_def getp_def delete_image_def db_select_def single_def up_def
        gallery_store_def light_def poster_def)

section \<open>The claims\<close>

text \<open>
  C3. Claim: verifying a token issued for an identity returns the identity's id, email
  and isAdmin for one hour. The issuer of src/index.js (and of part_000) signs only
  \<open>email\<close> and \<open>id\<close>: for a user whose metadata carries the admin flag the verified
  payload has no \<open>isAdmin\<close>, and the admin gate of the same file turns the token away.
  The issuer of part_001 does carry the flag (\<open>generateToken_fresh\<close>).
\<close>

theorem C3_index_token_without_isAdmin:
  "metadata_admin admin_user = Some (JBool True)
   \<and> jwt_verify (generateToken_index ''s3cret'' 0 admin_user) ''s3cret'' 10
       = Inr [(''email'', JStr ''root@campus.example''), (''id'', JStr ''u-admin''),
              (''iat'', JNum 0), (''exp'', JNum 3600)]
   \<and> getp [(''email'', JStr ''root@campus.example''), (''id'', JStr ''u-admin''),
            (''iat'', JNum 0), (''exp'', JNum 3600)] ''isAdmin'' = None
   \<and> authenticateAdmin ''s3cret'' 10 (Some (generateToken_index ''s3cret'' 0 admin_user))
       = Inl (Reply 403 (Message ''Access denied. Admins only.''))"
  by (simp add: admin_user_def generateToken_index_def jwt_sign_def jwt_verify_def getp_def
                expiresIn_1h_def authenticateAdmin_def)

text \<open>
  C4. Every admin gate answers 403 to a token whose payload has no \<open>isAdmin\<close> or has
  \<open>isAdmin = false\<close>, whatever else the payload holds, whatever the key and the time,
  and whether or not the token is prefixed with \<open>Bearer\<close>; the route returns that
  answer with the store untouched whatever its handler is, so the handler is not run.
\<close>

theorem C4_admin_gates_reject_non_admin:
  assumes "getp claims ''isAdmin'' = None \<or> getp claims ''isAdmin'' = Some (JBool False)"
  shows "(\<exists>b. \<forall>st handler.
            gated (authenticateAdmin secret now (Some [Jws claims k])) st handler
              = (Reply 403 b, st))
       \<and> (\<exists>b. \<forall>st handler.
            gated (authenticateAdmin secret now (Some (plain ''Bearer '' @ [Jws claims k])))
              st handler = (Reply 403 b, st))
       \<and> (\<exists>b. \<forall>st handler.
            gated (isAdmin secret now (Some [Jws claims k])) st handler = (Reply 403 b, st))
       \<and> (\<exists>b. \<forall>st handler.
            gated (isAdmin secret now (Some (plain ''Bearer '' @ [Jws claims k]))) st handler
              = (Reply 403 b, st))"
proof -
  from assms have na: "\<not> truthy (getp claims ''isAdmin'')" by auto
  obtain b1 where b1: "authenticateAdmin secret now (Some [Jws claims k]) = Inl (Reply 403 b1)"
    using authenticateAdmin_not_admin [OF na] by blast
  obtain b3 where b3: "isAdmin secret now (Some [Jws claims k]) = Inl (Reply 403 b3)"
    using isAdmin_not_admin [OF na] by blast
  obtain b4 where b4: "isAdmin secret now (Some (plain ''Bearer '' @ [Jws claims k]))
                         = Inl (Reply 403 b4)"
    using isAdmin_not_admin_bearer [OF na] by blast
  have g1: "\<exists>b. \<forall>st handler.
              gated (authenticateAdmin secret now (Some [Jws claims k])) st handler
                = (Reply 403 b, st)"
    by (simp add: b1 gated_Inl)
  have g2: "\<exists>b. \<forall>st handler.
              gated (authenticateAdmin secret now (Some (plain ''Bearer '' @ [Jws claims k])))
                st handler = (Reply 403 b, st)"
    by (simp add: authenticateAdmin_bearer gated_Inl)
  have g3: "\<exists>b. \<forall>st handler.
              gated (isAdmin secret now (Some [Jws claims k])) st handler = (Reply 403 b, st)"
    by (simp add: b3 gated_Inl)
  have g4: "\<exists>b. \<forall>st handler.
              gated (isAdmin secret now (Some (plain ''Bearer '' @ [Jws claims k]))) st handler
                = (Reply 403 b, st)"
    by (simp add: b4 gated_Inl)
  from g1 g2 g3 g4 show ?thesis by blast
qed

theorem C4_witness:
  "getp ann_claims ''isAdmin'' = Some (JBool False)
   \<and> (\<exists>b. \<forall>st handler.
         gated (isAdmin ''s3cret'' 10 (Some (plain ''Bearer '' @ [Jws ann_claims ''s3cret''])))
           st handler = (Reply 403 b, st))"
proof -
  have h: "getp ann_claims ''isAdmin'' = Some (JBool False)"
    by (simp add: ann_claims_def getp_def)
  then have "getp ann_claims ''isAdmin'' = None
             \<or> getp ann_claims ''isAdmin'' = Some (JBool False)" by simp
  from C4_admin_gates_reject_non_admin [OF this, of "''s3cret''" 10 "''s3cret''"] h
  show ?thesis by blast
qed

text \<open>
  C9. For a token that verifies and whose payload has a truthy \<open>isAdmin\<close>: the
  \<open>isAdmin\<close> middleware lets it through whether it is sent bare or after \<open>Bearer\<close>;
  \<open>authenticateToken\<close> and \<open>authenticateAdmin\<close> let the bare token through and answer
  403 "Invalid token." to the prefixed one.
\<close>

theorem C9_bearer_prefix_diverges:
  assumes valid: "jwt_verify [Jws claims k] secret now = Inr claims"
      and admin: "truthy (getp claims ''isAdmin'')"
  shows "isAdmin secret now (Some [Jws claims k]) = Inr claims
       \<and> isAdmin secret now (Some (plain ''Bearer '' @ [Jws claims k])) = Inr claims
       \<and> authenticateToken secret now (Some [Jws claims k]) = Inr claims
       \<and> authenticateToken secret now (Some (plain ''Bearer '' @ [Jws claims k]))
           = Inl (Reply 403 (Message ''Invalid token.''))
       \<and> authenticateAdmin secret now (Some [Jws claims k]) = Inr claims
       \<and> authenticateAdmin secret now (Some (plain ''Bearer '' @ [Jws claims k]))
           = Inl (Reply 403 (Message ''Invalid token.''))"
proof -
  have a: "isAdmin secret now (Some [Jws claims k]) = Inr claims"
    using valid admin by (simp add: isAdmin_def strip_bearer_bare)
  have b: "isAdmin secret now (Some (plain ''Bearer '' @ [Jws claims k])) = Inr claims"
    using valid admin bearer_not_empty [of "[Jws claims k]"]
    by (simp add: isAdmin_def strip_bearer_prefixed)
  have c: "authenticateToken secret now (Some [Jws claims k]) = Inr claims"
    using valid by (simp add: authenticateToken_def)
  have d: "authenticateAdmin secret now (Some [Jws claims k]) = Inr claims"
    using valid admin by (simp add: authenticateAdmin_def)
  show ?thesis
    using a b c d authenticateToken_bearer authenticateAdmin_bearer by simp
qed

theorem C9_witness:
  "jwt_verify [Jws admin_claims ''s3cret''] ''s3cret'' 10 = Inr admin_claims
   \<and> truthy (getp admin_claims ''isAdmin'')
   \<and> isAdmin ''s3cret'' 10 (Some (plain ''Bearer '' @ [Jws admin_claims ''s3cret'']))
       = Inr admin_claims
   \<and> authenticateAdmin ''s3cret'' 10 (Some (plain ''Bearer '' @ [Jws admin_claims ''s3cret'']))
       = Inl (Reply 403 (Message ''Invalid token.''))"
proof -
  have v: "jwt_verify [Jws admin_claims ''s3cret''] ''s3cret'' 10 = Inr admin_claims"
    by (simp add: jwt_verify_def admin_claims_def getp_def)
  have t: "truthy (getp admin_claims ''isAdmin'')"
    by (simp add: admin_claims_def getp_def)
  from C9_bearer_prefix_diverges [OF v t] v t show ?thesis by simp
qed

text \<open>
  C10. The route DELETE /complaints/:id of part_001 has no gate, so the handler runs
  with \<open>req.user\<close> undefined for every header, absent ones included: the store is never
  changed, and when the lookup finds the complaint the answer is 403.
\<close>

theorem C10_ungated_delete_never_deletes:
  "snd (route_delete_complaint avail st h cid) = st
   \<and> (avail Fetch \<and> filter (\<lambda>r. c_id r = cid) (complaints st) = [row]
      \<longrightarrow> fst (route_delete_complaint avail st h cid)
            = Reply 403 (Error ''Unauthorized to delete this complaint''))"
  by (simp add: route_delete_complaint_def delete_complaint_def strict_eq_None
                db_select_def single_def split: sum.splits)

theorem C10_witness:
  "up Fetch \<and> filter (\<lambda>r. c_id r = 1) (complaints campus_store) = [light]
   \<and> route_delete_complaint up campus_store None 1
       = (Reply 403 (Error ''Unauthorized to delete this complaint''), campus_store)"
proof -
  have f: "filter (\<lambda>r. c_id r = 1) (complaints campus_store) = [light]"
    by (simp add: campus_store_def light_def chair_def)
  have u: "up Fetch" by (simp add: up_def)
  from C10_ungated_delete_never_deletes [of up campus_store None 1 light] f u
  show ?thesis by (simp add: prod_eq_iff)
qed

text \<open>
  C1, as amended. The handlers that delete a complaint or remove its image never change
  a record owned by a different user. The delete handler removes the one complaint
  named in the path, and only when the id of \<open>req.user\<close> is strictly equal to its stored
  \<open>user_id\<close>; as the route is registered, without a gate, it never changes the store. The
  image removal clears the \<open>image_url\<close> of the one complaint named and removes its
  object from the storage, and only for the owner of that complaint. The upvote handler
  makes no ownership check: it changes at most the \<open>upvotes\<close> column of the one
  complaint named, and whenever the store answers it sets that column to
  \<open>(upvotes || 0) + 1\<close>, which is one more for a counter from 0 to below \<open>2 ^ 53\<close>,
  whoever the requester is.
\<close>

theorem C1_owner_checks_and_upvote:
  "(snd (delete_complaint avail st reqUser cid) = st
      \<or> (\<exists>row. filter (\<lambda>r. c_id r = cid) (complaints st) = [row]
              \<and> requester_id reqUser = Some (user_id row)
              \<and> snd (delete_complaint avail st reqUser cid)
                  = st\<lparr>complaints := filter (\<lambda>r. c_id r \<noteq> cid) (complaints st)\<rparr>))
   \<and> others_kept (requester_id reqUser) st (snd (delete_complaint avail st reqUser cid))
   \<and> snd (route_delete_complaint avail st h cid) = st
   \<and> (snd (delete_image avail st u cid) = st
      \<or> (\<exists>row url. filter (\<lambda>r. c_id r = cid) (complaints st) = [row]
              \<and> getp u ''id'' = Some (user_id row)
              \<and> image_url row = JStr url
              \<and> objects (snd (delete_image avail st u cid))
                  = filter (\<lambda>n. n \<noteq> ''complaints/'' @ last (split_on (CHR ''/'') url))
                      (objects st)
              \<and> (complaints (snd (delete_image avail st u cid)) = complaints st
                 \<or> complaints (snd (delete_image avail st u cid))
                     = map (\<lambda>r. if c_id r = cid then r\<lparr>image_url := JNull\<rparr> else r)
                           (complaints st))))
   \<and> others_kept (getp u ''id'') st (snd (delete_image avail st u cid))
   \<and> route_delete_image secret now avail st h cid
       = (case authenticateToken secret now h of
            Inl r \<Rightarrow> (r, st)
          | Inr v \<Rightarrow> delete_image avail st v cid)
   \<and> (snd (post_upvote avail st cid) = st
      \<or> (\<exists>row. filter (\<lambda>r. c_id r = cid) (complaints st) = [row]
              \<and> snd (post_upvote avail st cid)
                  = st\<lparr>complaints :=
                        map (\<lambda>x. if c_id x = cid then x\<lparr>upvotes := plus_one (upvotes row)\<rparr>
                                 else x) (complaints st)\<rparr>))
   \<and> (avail Fetch \<and> avail Write \<and> filter (\<lambda>x. c_id x = cid) (complaints st) = [victim]
      \<longrightarrow> post_upvote avail st cid
            = (Reply 200 (Row (victim\<lparr>upvotes := plus_one (upvotes victim)\<rparr>)),
               st\<lparr>complaints :=
                    map (\<lambda>x. if c_id x = cid then x\<lparr>upvotes := plus_one (upvotes victim)\<rparr>
                             else x) (complaints st)\<rparr>))
   \<and> route_upvote secret now avail st h cid
       = (case authenticateToken secret now h of
            Inl r \<Rightarrow> (r, st)
          | Inr v \<Rightarrow> post_upvote avail st cid)
   \<and> plus_one None = Some 1
   \<and> (0 \<le> n \<and> n < 2 ^ 53 \<longrightarrow> plus_one (Some n) = Some (n + 1))"
proof -
  have up: "avail Fetch \<and> avail Write \<and> filter (\<lambda>x. c_id x = cid) (complaints st) = [victim]
      \<longrightarrow> post_upvote avail st cid
            = (Reply 200 (Row (victim\<lparr>upvotes := plus_one (upvotes victim)\<rparr>)),
               st\<lparr>complaints :=
                    map (\<lambda>x. if c_id x = cid then x\<lparr>upvotes := plus_one (upvotes victim)\<rparr>
                             else x) (complaints st)\<rparr>)"
    using post_upvote_succeeds by blast
  have p0: "plus_one None = Some 1" by (simp add: plus_one_def)
  have p1: "0 \<le> n \<and> n < 2 ^ 53 \<longrightarrow> plus_one (Some n) = Some (n + 1)"
    using plus_one_exact by blast
  show ?thesis
    by (intro conjI delete_complaint_effect delete_complaint_others_kept
          route_delete_complaint_unchanged delete_image_effect delete_image_others_kept
          route_delete_image_handler post_upvote_effect up route_upvote_handler p0 p1)
qed

text \<open>
  C1 as stated fails at the upvote: the requester \<open>u-2\<close> changes the complaint 1, which
  \<open>u-1\<close> owns.
\<close>

theorem C1_counterexample:
  "route_upvote ''s3cret'' 10 up campus_store (Some [Jws bob_claims ''s3cret'']) 1
     = (Reply 200 (Row (light\<lparr>upvotes := Some 1\<rparr>)),
        campus_store\<lparr>complaints := [light\<lparr>upvotes := Some 1\<rparr>, chair]\<rparr>)
   \<and> campus_store\<lparr>complaints := [light\<lparr>upvotes := Some 1\<rparr>, chair]\<rparr> \<noteq> campus_store
   \<and> user_id light = JStr ''u-1'' \<and> getp bob_claims ''id'' = Some (JStr ''u-2'')"
proof -
  have p: "plus_one (Some 0) = Some 1"
    using plus_one_exact [of 0] by simp
  show ?thesis
    by (simp add: route_upvote_def gated_def authenticateToken_def jwt_verify_def
        bob_claims_def getp_def post_upvote_def db_update_def db_select_def single_def up_def
        campus_store_def light_def chair_def p Let_def)
qed

theorem C1_witness:
  "up Fetch \<and> up Write \<and> filter (\<lambda>x. c_id x = 1) (complaints campus_store) = [light]
   \<and> post_upvote up campus_store 1
       = (Reply 200 (Row (light\<lparr>upvotes := plus_one (upvotes light)\<rparr>)),
          campus_store\<lparr>complaints :=
             map (\<lambda>x. if c_id x = 1 then x\<lparr>upvotes := plus_one (upvotes light)\<rparr> else x)
                 (complaints campus_store)\<rparr>)
   \<and> plus_one (Some 0) = Some (0 + 1)
   \<and> snd (delete_image up gallery_store bob_claims 7) \<noteq> gallery_store
   \<and> (\<exists>row url. filter (\<lambda>r. c_id r = 7) (complaints gallery_store) = [row]
           \<and> getp bob_claims ''id'' = Some (user_id row)
           \<and> image_url row = JStr url
           \<and> objects (snd (delete_image up gallery_store bob_claims 7))
               = filter (\<lambda>n. n \<noteq> ''complaints/'' @ last (split_on (CHR ''/'') url))
                   (objects gallery_store)
           \<and> (complaints (snd (delete_image up gallery_store bob_claims 7))
                 = complaints gallery_store
              \<or> complaints (snd (delete_image up gallery_store bob_claims 7))
                  = map (\<lambda>r. if c_id r = 7 then r\<lparr>image_url := JNull\<rparr> else r)
                        (complaints gallery_store)))
   \<and> route_delete_image ''s3cret'' 10 up gallery_store (Some [Jws ann_claims ''s3cret'']) 7
       = (Reply 403 (Message ''Unauthorized''), gallery_store)"
proof -
  note campus = C1_owner_checks_and_upvote
                  [where avail = up and st = campus_store and cid = 1 and victim = light
                     and n = 0]
  note gallery = C1_owner_checks_and_upvote
                  [where avail = up and st = gallery_store and cid = 7 and u = bob_claims]
  have a: "up Fetch \<and> up Write \<and> filter (\<lambda>x. c_id x = 1) (complaints campus_store) = [light]"
    by (simp add: up_def campus_store_def light_def chair_def)
  have "up Fetch \<and> up Write \<and> filter (\<lambda>x. c_id x = 1) (complaints campus_store) = [light]
      \<longrightarrow> post_upvote up campus_store 1
            = (Reply 200 (Row (light\<lparr>upvotes := plus_one (upvotes light)\<rparr>)),
               campus_store\<lparr>complaints :=
                  map (\<lambda>x. if c_id x = 1 then x\<lparr>upvotes := plus_one (upvotes light)\<rparr> else x)
                      (complaints campus_store)\<rparr>)"
    by (rule campus [THEN conjunct2, THEN conjunct2, THEN conjunct2, THEN conjunct2,
                     THEN conjunct2, THEN conjunct2, THEN conjunct2, THEN conjunct1])
  then have b: "post_upvote up campus_store 1
            = (Reply 200 (Row (light\<lparr>upvotes := plus_one (upvotes light)\<rparr>)),
               campus_store\<lparr>complaints :=
                  map (\<lambda>x. if c_id x = 1 then x\<lparr>upvotes := plus_one (upvotes light)\<rparr> else x)
                      (complaints campus_store)\<rparr>)"
    using a by (rule mp)
  have "(0::int) \<le> 0 \<and> (0::int) < 2 ^ 53 \<longrightarrow> plus_one (Some 0) = Some (0 + 1)"
    by (rule campus [THEN conjunct2, THEN conjunct2, THEN conjunct2, THEN conjunct2,
                     THEN conjunct2, THEN conjunct2, THEN conjunct2, THEN conjunct2,
                     THEN conjunct2, THEN conjunct2])
  then have c: "plus_one (Some 0) = Some (0 + 1)" by simp
  have ne: "snd (delete_image up gallery_store bob_claims 7) \<noteq> gallery_store"
    unfolding poster_image_removed by (simp add: gallery_store_def)
  have "snd (delete_image up gallery_store bob_claims 7) = gallery_store
      \<or> (\<exists>row url. filter (\<lambda>r. c_id r = 7) (complaints gallery_store) = [row]
           \<and> getp bob_claims ''id'' = Some (user_id row)
           \<and> image_url row = JStr url
           \<and> objects (snd (delete_image up gallery_store bob_claims 7))
               = filter (\<lambda>n. n \<noteq> ''complaints/'' @ last (split_on (CHR ''/'') url))
                   (objects gallery_store)
           \<and> (complaints (snd (delete_image up gallery_store bob_claims 7))
                 = complaints gallery_store
              \<or> complaints (snd (delete_image up gallery_store bob_claims 7))
                  = map (\<lambda>r. if c_id r = 7 then r\<lparr>image_url := JNull\<rparr> else r)
                        (complaints gallery_store)))"
    by (rule gallery [THEN conjunct2, THEN conjunct2, THEN conjunct2, THEN conjunct1])
  then have d: "\<exists>row url. filter (\<lambda>r. c_id r = 7) (complaints gallery_store) = [row]
           \<and> getp bob_claims ''id'' = Some (user_id row)
           \<and> image_url row = JStr url
           \<and> objects (snd (delete_image up gallery_store bob_claims 7))
               = filter (\<lambda>n. n \<noteq> ''complaints/'' @ last (split_on (CHR ''/'') url))
                   (objects gallery_store)
           \<and> (complaints (snd (delete_image up gallery_store bob_claims 7))
                 = complaints gallery_store
              \<or> complaints (snd (delete_image up gallery_store bob_claims 7))
                  = map (\<lambda>r. if c_id r = 7 then r\<lparr>image_url := JNull\<rparr> else r)
                        (complaints gallery_store))"
  proof
    assume "snd (delete_image up gallery_store bob_claims 7) = gallery_store"
    with ne show ?thesis by (rule notE)
  next
    assume "\<exists>row url. filter (\<lambda>r. c_id r = 7) (complaints gallery_store) = [row]
           \<and> getp bob_claims ''id'' = Some (user_id row)
           \<and> image_url row = JStr url
           \<and> objects (snd (delete_image up gallery_store bob_claims 7))
               = filter (\<lambda>n. n \<noteq> ''complaints/'' @ last (split_on (CHR ''/'') url))
                   (objects gallery_store)
           \<and> (complaints (snd (delete_image up gallery_store bob_claims 7))
                 = complaints gallery_store
              \<or> complaints (snd (delete_image up gallery_store bob_claims 7))
                  = map (\<lambda>r. if c_id r = 7 then r\<lparr>image_url := JNull\<rparr> else r)
                        (complaints gallery_store))"
    then show ?thesis .
  qed
  show ?thesis
    by (intro conjI a [THEN conjunct1] a [THEN conjunct2, THEN conjunct1]
          a [THEN conjunct2, THEN conjunct2] b c ne d poster_image_kept)
qed

text \<open>
  C2, as amended. With a truthy title and description, the submit handler of part_001
  stores of a tag list (an array, or a string that parses to an array) exactly the
  members of the vocabulary, with or without an upload, and values outside the
  vocabulary do not make it fail; it answers 400 "Invalid tags format" exactly when
  \<open>tags\<close> is a string that does not parse to an array, and writes nothing then. The
  handler of src/index.js answers 400 "Invalid tags provided" to a tag list with a
  member outside the vocabulary and writes nothing.
\<close>

theorem C2_unknown_tags_by_revision:
  assumes w: "wants_fields reqbody"
  shows "(sent_tags (env_json_parse e) (getp reqbody ''tags'') = Some xs
            \<and> is_created (fst (post_submit e st u (Some reqbody) upl))
          \<longrightarrow> (\<exists>row. fst (post_submit e st u (Some reqbody) upl)
                         = Reply 201 (Submitted (Some row))
                      \<and> complaints (snd (post_submit e st u (Some reqbody) upl))
                         = complaints st @ [row]
                      \<and> tags row = JArr (filter valid_tag xs)))
       \<and> (sent_tags (env_json_parse e) (getp reqbody ''tags'') = Some xs \<and> env_avail e Write
          \<longrightarrow> is_created (fst (post_submit e st u (Some reqbody) None)))
       \<and> (sent_tags (env_json_parse e) (getp reqbody ''tags'') = Some xs
            \<and> env_decode e (file_buffer f) = Some dims \<and> env_avail e Storage
            \<and> ''complaints/'' @ env_uuid e @ ''.jpg'' \<notin> set (objects st) \<and> env_avail e Write
          \<longrightarrow> is_created (fst (post_submit e st u (Some reqbody) (Some f))))
       \<and> ((fst (post_submit e st u (Some reqbody) upl) = Reply 400 (Message ''Invalid tags format''))
            = (\<exists>s. getp reqbody ''tags'' = Some (JStr s)
                  \<and> (\<forall>ys. env_json_parse e s \<noteq> Some (JArr ys))))
       \<and> (fst (post_submit e st u (Some reqbody) upl) = Reply 400 (Message ''Invalid tags format'')
            \<longrightarrow> snd (post_submit e st u (Some reqbody) upl) = st)
       \<and> (getp reqbody ''tags'' = Some (JArr xs) \<and> \<not> list_all valid_tag xs
            \<longrightarrow> post_submit_index avail clock st u reqbody
                  = (Reply 400 (Message ''Invalid tags provided''), st))"
proof -
  have a: "sent_tags (env_json_parse e) (getp reqbody ''tags'') = Some xs
            \<and> is_created (fst (post_submit e st u (Some reqbody) upl))
          \<longrightarrow> (\<exists>row. fst (post_submit e st u (Some reqbody) upl)
                         = Reply 201 (Submitted (Some row))
                      \<and> complaints (snd (post_submit e st u (Some reqbody) upl))
                         = complaints st @ [row]
                      \<and> tags row = JArr (filter valid_tag xs))"
  proof
    assume h: "sent_tags (env_json_parse e) (getp reqbody ''tags'') = Some xs
                 \<and> is_created (fst (post_submit e st u (Some reqbody) upl))"
    then have p: "parse_tags (env_json_parse e) (getp reqbody ''tags'')
                    = Some (filter valid_tag xs)"
      by (simp add: sent_tags_parsed)
    from h have c: "is_created (fst (post_submit e st u (Some reqbody) upl))" by simp
    from post_submit_created_row [OF w p c]
    show "\<exists>row. fst (post_submit e st u (Some reqbody) upl) = Reply 201 (Submitted (Some row))
              \<and> complaints (snd (post_submit e st u (Some reqbody) upl)) = complaints st @ [row]
              \<and> tags row = JArr (filter valid_tag xs)"
      by blast
  qed
  have b: "sent_tags (env_json_parse e) (getp reqbody ''tags'') = Some xs \<and> env_avail e Write
          \<longrightarrow> is_created (fst (post_submit e st u (Some reqbody) None))"
  proof
    assume h: "sent_tags (env_json_parse e) (getp reqbody ''tags'') = Some xs \<and> env_avail e Write"
    then have p: "parse_tags (env_json_parse e) (getp reqbody ''tags'')
                    = Some (filter valid_tag xs)"
      by (simp add: sent_tags_parsed)
    from h have av: "env_avail e Write" by simp
    from post_submit_no_file [OF w p av, of st u]
    show "is_created (fst (post_submit e st u (Some reqbody) None))"
      by (auto simp: is_created_def)
  qed
  have c: "sent_tags (env_json_parse e) (getp reqbody ''tags'') = Some xs
            \<and> env_decode e (file_buffer f) = Some dims \<and> env_avail e Storage
            \<and> ''complaints/'' @ env_uuid e @ ''.jpg'' \<notin> set (objects st) \<and> env_avail e Write
          \<longrightarrow> is_created (fst (post_submit e st u (Some reqbody) (Some f)))"
  proof
    assume h: "sent_tags (env_json_parse e) (getp reqbody ''tags'') = Some xs
            \<and> env_decode e (file_buffer f) = Some dims \<and> env_avail e Storage
            \<and> ''complaints/'' @ env_uuid e @ ''.jpg'' \<notin> set (objects st) \<and> env_avail e Write"
    then have p: "parse_tags (env_json_parse e) (getp reqbody ''tags'')
                    = Some (filter valid_tag xs)"
      by (simp add: sent_tags_parsed)
    from h have d: "env_decode e (file_buffer f) = Some dims" and s: "env_avail e Storage"
      and n: "''complaints/'' @ env_uuid e @ ''.jpg'' \<notin> set (objects st)"
      and av: "env_avail e Write" by simp_all
    from post_submit_with_file [OF w p d s n av, of u]
    show "is_created (fst (post_submit e st u (Some reqbody) (Some f)))"
      by (auto simp: is_created_def)
  qed
  have d: "fst (post_submit e st u (Some reqbody) upl) = Reply 400 (Message ''Invalid tags format'')
            \<longrightarrow> snd (post_submit e st u (Some reqbody) upl) = st"
    using post_submit_400_store by blast
  have f: "getp reqbody ''tags'' = Some (JArr xs) \<and> \<not> list_all valid_tag xs
            \<longrightarrow> post_submit_index avail clock st u reqbody
                  = (Reply 400 (Message ''Invalid tags provided''), st)"
    using post_submit_index_rejects [OF w] by blast
  show ?thesis
    by (intro conjI a b c post_submit_tags_400 [OF w] d f)
qed

text \<open>
  C2 as stated fails in src/index.js: the list \<open>["electricity", "bogus"]\<close> is turned
  away with 400 and nothing is stored.
\<close>

theorem C2_counterexample:
  "post_submit_index up 300 campus_store ann_claims light_body
     = (Reply 400 (Message ''Invalid tags provided''), campus_store)"
  by (simp add: post_submit_index_def light_body_def getp_def includes_str_def VALID_TAGS_def)

theorem C2_witness:
  "wants_fields light_form
   \<and> sent_tags (env_json_parse env1) (getp light_form ''tags'')
       = Some [JStr ''electricity'', JStr ''bogus'']
   \<and> env_decode env1 (file_buffer photo) = Some (4000, 3000)
   \<and> env_avail env1 Storage
   \<and> ''complaints/'' @ env_uuid env1 @ ''.jpg'' \<notin> set (objects campus_store)
   \<and> env_avail env1 Write
   \<and> is_created (fst (post_submit env1 campus_store ann_claims (Some light_form) (Some photo)))
   \<and> (\<exists>row. fst (post_submit env1 campus_store ann_claims (Some light_form) (Some photo))
                 = Reply 201 (Submitted (Some row))
            \<and> complaints (snd (post_submit env1 campus_store ann_claims (Some light_form)
                                  (Some photo)))
                 = complaints campus_store @ [row]
            \<and> tags row = JArr (filter valid_tag [JStr ''electricity'', JStr ''bogus'']))
   \<and> filter valid_tag [JStr ''electricity'', JStr ''bogus''] = [JStr ''electricity'']"
proof -
  have w: "wants_fields light_form"
    by (simp add: wants_fields_def light_form_def getp_def)
  note T = C2_unknown_tags_by_revision
             [OF w, where e = env1 and st = campus_store and u = ann_claims
                and xs = "[JStr ''electricity'', JStr ''bogus'']" and f = photo
                and upl = "Some photo" and dims = "(4000, 3000)"]
  have s: "sent_tags (env_json_parse env1) (getp light_form ''tags'')
             = Some [JStr ''electricity'', JStr ''bogus'']"
    by (simp add: sent_tags_def env1_def light_form_def getp_def)
  have d: "env_decode env1 (file_buffer photo) = Some (4000, 3000)"
    by (simp add: env1_def photo_def)
  have st: "env_avail env1 Storage" by (simp add: env1_def up_def)
  have n: "''complaints/'' @ env_uuid env1 @ ''.jpg'' \<notin> set (objects campus_store)"
    by (simp add: env1_def campus_store_def)
  have av: "env_avail env1 Write" by (simp add: env1_def up_def)
  have c: "is_created (fst (post_submit env1 campus_store ann_claims (Some light_form)
                              (Some photo)))"
    by (rule T [THEN conjunct2, THEN conjunct2, THEN conjunct1, THEN mp])
       (intro conjI s d st n av)
  have r: "\<exists>row. fst (post_submit env1 campus_store ann_claims (Some light_form) (Some photo))
                 = Reply 201 (Submitted (Some row))
            \<and> complaints (snd (post_submit env1 campus_store ann_claims (Some light_form)
                                  (Some photo)))
                 = complaints campus_store @ [row]
            \<and> tags row = JArr (filter valid_tag [JStr ''electricity'', JStr ''bogus''])"
    by (rule T [THEN conjunct1, THEN mp]) (intro conjI s c)
  have f: "filter valid_tag [JStr ''electricity'', JStr ''bogus''] = [JStr ''electricity'']"
    by (simp add: valid_tag_def includes_str_def VALID_TAGS_def)
  show ?thesis by (intro conjI w s d st n av c r f)
qed

text \<open>
  C5. Claim: the admin status update accepts only \<open>pending\<close>, \<open>working\<close> and
  \<open>finished\<close>, and answers 400 to anything else with the record unchanged. The route
  of src/index.js writes the status \<open>closed\<close> and answers 200. The handler of part_001
  has the check and answers 400 when it is given that body, but its route has no body
  parser in front of it and throws on the same request before the check is reached.
\<close>

theorem C5_index_status_unchecked:
  "\<not> includes_str VALID_STATUS (Some (JStr ''closed''))
   \<and> route_put_status_index ''s3cret'' 10 up campus_store (Some [Jws admin_claims ''s3cret'']) 1
       [(''status'', JStr ''closed'')]
     = (Reply 200 (Message ''Complaint status updated''),
        campus_store\<lparr>complaints := [light\<lparr>status := JStr ''closed''\<rparr>, chair]\<rparr>)
   \<and> route_put_status ''s3cret'' 10 up campus_store (Some [Jws admin_claims ''s3cret'']) 1
       [(''status'', JStr ''closed'')]
     = (Uncaught, campus_store)
   \<and> put_status up campus_store 1 (Some [(''status'', JStr ''closed'')])
     = (Reply 400 (Message ''Invalid status value''), campus_store)"
  by (simp add: route_put_status_index_def gated_def authenticateAdmin_def jwt_verify_def
        admin_claims_def getp_def put_status_index_def db_update_def up_def set_status_def
        campus_store_def light_def chair_def includes_str_def VALID_STATUS_def
        route_put_status_def isAdmin_def strip_bearer_def plain_def put_status_def)

text \<open>
  C6, as amended. On every request to the submit route of src/index.js and of part_001,
  a 201 means that the gate resolved a payload from the token and that one row was
  appended whose \<open>user_id\<close> is the \<open>id\<close> of that payload and whose status is
  \<open>pending\<close>, whatever the body holds, and without a 201 no complaint is written. For
  an authenticated request whose body the route has read (in src/index.js the JSON
  body; in part_001 a multipart form whose file part, if any, is an image of at most
  5 MiB): a falsy title or description gets 400 "Title and description are required"
  with the store as it was; with a truthy title and description, tags that the revision
  takes, and the store (and, for an upload, the decoder and the storage) answering, the
  row is stored and the answer is 201.
\<close>

theorem C6_submit_owner_and_status:
  "submit_safe (authenticateToken secret now h) st
     (route_submit_index secret now avail st h reqbody)
   \<and> submit_safe (authenticateToken secret (env_clock e) h) st (route_submit secret e st h form)
   \<and> (authenticateToken secret now h = Inr u \<and> \<not> wants_fields reqbody
      \<longrightarrow> route_submit_index secret now avail st h reqbody
            = (Reply 400 (Message ''Title and description are required''), st))
   \<and> (authenticateToken secret now h = Inr u \<and> wants_fields reqbody
        \<and> (\<not> truthy (getp reqbody ''tags'')
           \<or> (\<exists>xs. getp reqbody ''tags'' = Some (JArr xs) \<and> list_all valid_tag xs))
        \<and> avail Write
      \<longrightarrow> created_for u st (route_submit_index secret now avail st h reqbody))
   \<and> (authenticateToken secret (env_clock e) h = Inr u \<and> accepted upl \<and> \<not> wants_fields flds
      \<longrightarrow> route_submit secret e st h (Some (flds, upl))
            = (Reply 400 (Message ''Title and description are required''), st))
   \<and> (authenticateToken secret (env_clock e) h = Inr u \<and> wants_fields flds
        \<and> parse_tags (env_json_parse e) (getp flds ''tags'') = Some ys \<and> env_avail e Write
      \<longrightarrow> created_for u st (route_submit secret e st h (Some (flds, None))))
   \<and> (authenticateToken secret (env_clock e) h = Inr u \<and> accepted (Some f) \<and> wants_fields flds
        \<and> parse_tags (env_json_parse e) (getp flds ''tags'') = Some ys
        \<and> env_decode e (file_buffer f) = Some dims \<and> env_avail e Storage
        \<and> ''complaints/'' @ env_uuid e @ ''.jpg'' \<notin> set (objects st) \<and> env_avail e Write
      \<longrightarrow> created_for u st (route_submit secret e st h (Some (flds, Some f))))"
proof -
  have i4: "authenticateToken secret now h = Inr u \<and> \<not> wants_fields reqbody
      \<longrightarrow> route_submit_index secret now avail st h reqbody
            = (Reply 400 (Message ''Title and description are required''), st)"
    by (simp add: route_submit_index_handler post_submit_index_400_fields)
  have i2: "authenticateToken secret now h = Inr u \<and> wants_fields reqbody
        \<and> (\<not> truthy (getp reqbody ''tags'')
           \<or> (\<exists>xs. getp reqbody ''tags'' = Some (JArr xs) \<and> list_all valid_tag xs))
        \<and> avail Write
      \<longrightarrow> created_for u st (route_submit_index secret now avail st h reqbody)"
  proof
    assume a: "authenticateToken secret now h = Inr u \<and> wants_fields reqbody
        \<and> (\<not> truthy (getp reqbody ''tags'')
           \<or> (\<exists>xs. getp reqbody ''tags'' = Some (JArr xs) \<and> list_all valid_tag xs))
        \<and> avail Write"
    then have w: "wants_fields reqbody"
      and t: "\<not> truthy (getp reqbody ''tags'')
           \<or> (\<exists>xs. getp reqbody ''tags'' = Some (JArr xs) \<and> list_all valid_tag xs)"
      and av: "avail Write" by simp_all
    from a have r: "route_submit_index secret now avail st h reqbody
                      = post_submit_index avail now st u reqbody"
      by (simp add: route_submit_index_handler)
    have "\<exists>row. post_submit_index avail now st u reqbody
                 = (Reply 201 (Submitted (Some row)), st\<lparr>complaints := complaints st @ [row]\<rparr>)
              \<and> user_id row = col (getp u ''id'') \<and> status row = JStr ''pending''"
      using w t av by (rule post_submit_index_stores)
    then show "created_for u st (route_submit_index secret now avail st h reqbody)"
      unfolding r by (auto simp: created_for_def)
  qed
  have p4: "authenticateToken secret (env_clock e) h = Inr u \<and> accepted upl \<and> \<not> wants_fields flds
      \<longrightarrow> route_submit secret e st h (Some (flds, upl))
            = (Reply 400 (Message ''Title and description are required''), st)"
    by (simp add: route_submit_handler upload_single_accepted post_submit_400_fields)
  have p2: "authenticateToken secret (env_clock e) h = Inr u \<and> wants_fields flds
        \<and> parse_tags (env_json_parse e) (getp flds ''tags'') = Some ys \<and> env_avail e Write
      \<longrightarrow> created_for u st (route_submit secret e st h (Some (flds, None)))"
  proof
    assume a: "authenticateToken secret (env_clock e) h = Inr u \<and> wants_fields flds
        \<and> parse_tags (env_json_parse e) (getp flds ''tags'') = Some ys \<and> env_avail e Write"
    then have w: "wants_fields flds"
      and p: "parse_tags (env_json_parse e) (getp flds ''tags'') = Some ys"
      and av: "env_avail e Write" by simp_all
    have acc: "accepted None" by (simp add: accepted_def)
    from a have r: "route_submit secret e st h (Some (flds, None))
                      = post_submit e st u (Some flds) None"
      by (simp add: route_submit_handler upload_single_accepted [OF acc])
    from post_submit_no_file [OF w p av, of st u]
    have "\<exists>row. post_submit e st u (Some flds) None
                 = (Reply 201 (Submitted (Some row)), st\<lparr>complaints := complaints st @ [row]\<rparr>)
              \<and> complaints (st\<lparr>complaints := complaints st @ [row]\<rparr>) = complaints st @ [row]
              \<and> user_id row = col (getp u ''id'') \<and> status row = JStr ''pending''"
      by auto
    then show "created_for u st (route_submit secret e st h (Some (flds, None)))"
      unfolding r by (auto simp: created_for_def)
  qed
  have p3: "authenticateToken secret (env_clock e) h = Inr u \<and> accepted (Some f) \<and> wants_fields flds
        \<and> parse_tags (env_json_parse e) (getp flds ''tags'') = Some ys
        \<and> env_decode e (file_buffer f) = Some dims \<and> env_avail e Storage
        \<and> ''complaints/'' @ env_uuid e @ ''.jpg'' \<notin> set (objects st) \<and> env_avail e Write
      \<longrightarrow> created_for u st (route_submit secret e st h (Some (flds, Some f)))"
  proof
    assume a: "authenticateToken secret (env_clock e) h = Inr u \<and> accepted (Some f) \<and> wants_fields flds
        \<and> parse_tags (env_json_parse e) (getp flds ''tags'') = Some ys
        \<and> env_decode e (file_buffer f) = Some dims \<and> env_avail e Storage
        \<and> ''complaints/'' @ env_uuid e @ ''.jpg'' \<notin> set (objects st) \<and> env_avail e Write"
    then have acc: "accepted (Some f)" and w: "wants_fields flds"
      and p: "parse_tags (env_json_parse e) (getp flds ''tags'') = Some ys"
      and d: "env_decode e (file_buffer f) = Some dims" and s: "env_avail e Storage"
      and n: "''complaints/'' @ env_uuid e @ ''.jpg'' \<notin> set (objects st)"
      and av: "env_avail e Write" by simp_all
    from a have r: "route_submit secret e st h (Some (flds, Some f))
                      = post_submit e st u (Some flds) (Some f)"
      by (simp add: route_submit_handler upload_single_accepted [OF acc])
    from post_submit_with_file [OF w p d s n av, of u]
    show "created_for u st (route_submit secret e st h (Some (flds, Some f)))"
      unfolding r by (auto simp: created_for_def)
  qed
  show ?thesis
    by (intro conjI route_submit_index_safe route_submit_safe i4 i2 p4 p2 p3)
qed

text \<open>
  C6 as stated fails in part_001 for an authenticated request without a title: with a
  file part that is not an image the upload middleware hands an error to the framework
  and the handler never answers 400; and a request that is not a multipart form is
  answered 500.
\<close>

theorem C6_counterexample:
  "authenticateToken ''s3cret'' (env_clock env0) (Some [Jws ann_claims ''s3cret''])
     = Inr ann_claims
   \<and> \<not> truthy (getp [(''description'', JStr ''Hallway B'')] ''title'')
   \<and> route_submit ''s3cret'' env0 campus_store (Some [Jws ann_claims ''s3cret''])
       (Some ([(''description'', JStr ''Hallway B'')], Some memo))
     = (NextErr ''Only image files are allowed!'', campus_store)
   \<and> route_submit ''s3cret'' env0 campus_store (Some [Jws ann_claims ''s3cret'']) None
     = (Reply 500 (Message ''Unexpected error occurred''), campus_store)"
  by (simp add: route_submit_def gated_def authenticateToken_def jwt_verify_def ann_claims_def
        getp_def env0_def upload_single_def fileFilter_def memo_def post_submit_def)

theorem C6_witness:
  "authenticateToken ''s3cret'' 300 (Some [Jws ann_claims ''s3cret'']) = Inr ann_claims
   \<and> wants_fields chair_body
   \<and> (\<exists>xs. getp chair_body ''tags'' = Some (JArr xs) \<and> list_all valid_tag xs)
   \<and> up Write
   \<and> getp chair_body ''user_id'' = Some (JStr ''u-2'')
   \<and> created_for ann_claims campus_store
        (route_submit_index ''s3cret'' 300 up campus_store (Some [Jws ann_claims ''s3cret''])
           chair_body)
   \<and> col (getp ann_claims ''id'') = JStr ''u-1''
   \<and> accepted (Some photo) \<and> wants_fields light_form
   \<and> parse_tags (env_json_parse env1) (getp light_form ''tags'') = Some [JStr ''electricity'']
   \<and> env_decode env1 (file_buffer photo) = Some (4000, 3000)
   \<and> env_avail env1 Storage
   \<and> ''complaints/'' @ env_uuid env1 @ ''.jpg'' \<notin> set (objects campus_store)
   \<and> env_avail env1 Write
   \<and> created_for ann_claims campus_store
        (route_submit ''s3cret'' env1 campus_store (Some [Jws ann_claims ''s3cret''])
           (Some (light_form, Some photo)))
   \<and> \<not> wants_fields [(''description'', JStr ''Hallway B'')]
   \<and> route_submit ''s3cret'' env1 campus_store (Some [Jws ann_claims ''s3cret''])
        (Some ([(''description'', JStr ''Hallway B'')], Some photo))
       = (Reply 400 (Message ''Title and description are required''), campus_store)"
proof -
  note T = C6_submit_owner_and_status
             [where secret = "''s3cret''" and now = 300 and h = "Some [Jws ann_claims ''s3cret'']"
                and st = campus_store and avail = up and reqbody = chair_body and u = ann_claims
                and e = env1 and flds = light_form and f = photo and dims = "(4000, 3000)"
                and ys = "[JStr ''electricity'']"]
  note T' = C6_submit_owner_and_status
             [where secret = "''s3cret''" and h = "Some [Jws ann_claims ''s3cret'']"
                and st = campus_store and u = ann_claims and e = env1
                and flds = "[(''description'', JStr ''Hallway B'')]" and upl = "Some photo"]
  have au: "authenticateToken ''s3cret'' 300 (Some [Jws ann_claims ''s3cret'']) = Inr ann_claims"
    by (simp add: authenticateToken_def jwt_verify_def ann_claims_def getp_def)
  have ck: "env_clock env1 = 300" by (simp add: env1_def)
  have au1: "authenticateToken ''s3cret'' (env_clock env1) (Some [Jws ann_claims ''s3cret''])
               = Inr ann_claims"
    unfolding ck by (rule au)
  have w: "wants_fields chair_body"
    by (simp add: wants_fields_def chair_body_def getp_def)
  have t: "\<exists>xs. getp chair_body ''tags'' = Some (JArr xs) \<and> list_all valid_tag xs"
    by (simp add: chair_body_def getp_def valid_tag_def includes_str_def VALID_TAGS_def)
  have t': "\<not> truthy (getp chair_body ''tags'')
            \<or> (\<exists>xs. getp chair_body ''tags'' = Some (JArr xs) \<and> list_all valid_tag xs)"
    using t by (rule disjI2)
  have a: "up Write" by (simp add: up_def)
  have o: "getp chair_body ''user_id'' = Some (JStr ''u-2'')"
    by (simp add: chair_body_def getp_def)
  have c1: "created_for ann_claims campus_store
        (route_submit_index ''s3cret'' 300 up campus_store (Some [Jws ann_claims ''s3cret''])
           chair_body)"
    by (rule T [THEN conjunct2, THEN conjunct2, THEN conjunct2, THEN conjunct1, THEN mp])
       (intro conjI au w t' a)
  have i: "col (getp ann_claims ''id'') = JStr ''u-1''"
    by (simp add: ann_claims_def getp_def col_def)
  have acc: "accepted (Some photo)"
    by (simp add: accepted_def fileFilter_def photo_def fileSize_limit_def)
  have w1: "wants_fields light_form"
    by (simp add: wants_fields_def light_form_def getp_def)
  have p: "parse_tags (env_json_parse env1) (getp light_form ''tags'') = Some [JStr ''electricity'']"
    by (simp add: parse_tags_def env1_def light_form_def getp_def includes_str_def VALID_TAGS_def)
  have d: "env_decode env1 (file_buffer photo) = Some (4000, 3000)"
    by (simp add: env1_def photo_def)
  have s: "env_avail env1 Storage" by (simp add: env1_def up_def)
  have n: "''complaints/'' @ env_uuid env1 @ ''.jpg'' \<notin> set (objects campus_store)"
    by (simp add: env1_def campus_store_def)
  have av: "env_avail env1 Write" by (simp add: env1_def up_def)
  have c2: "created_for ann_claims campus_store
        (route_submit ''s3cret'' env1 campus_store (Some [Jws ann_claims ''s3cret''])
           (Some (light_form, Some photo)))"
    by (rule T [THEN conjunct2, THEN conjunct2, THEN conjunct2, THEN conjunct2, THEN conjunct2,
                THEN conjunct2, THEN mp])
       (intro conjI au1 acc w1 p d s n av)
  have nw: "\<not> wants_fields [(''description'', JStr ''Hallway B'')]"
    by (simp add: wants_fields_def getp_def)
  have c3: "route_submit ''s3cret'' env1 campus_store (Some [Jws ann_claims ''s3cret''])
        (Some ([(''description'', JStr ''Hallway B'')], Some photo))
       = (Reply 400 (Message ''Title and description are required''), campus_store)"
    by (rule T' [THEN conjunct2, THEN conjunct2, THEN conjunct2, THEN conjunct2, THEN conjunct1,
                 THEN mp])
       (intro conjI au1 acc nw)
  show ?thesis
    by (intro conjI au w t a o c1 i acc w1 p d s n av c2 nw c3)
qed

text \<open>
  C7. For every upload that decodes to an image of positive width and height, the image
  written is at most 1200 by 1200, no side is larger than it was, an image already
  inside the box keeps its size, and the aspect ratio is kept to the pixel: either the
  size is unchanged, or one side is exactly 1200 and the other is within one pixel of
  the same scaling.
\<close>

theorem C7_resize_within_box:
  assumes dec: "decode buffer = Some (w, h)" and w0: "0 < w" and h0: "0 < h"
  shows "\<exists>w' h'. processImage decode buffer = Some (w', h')
            \<and> 0 < w' \<and> 0 < h' \<and> w' \<le> 1200 \<and> h' \<le> 1200 \<and> w' \<le> w \<and> h' \<le> h
            \<and> (w \<le> 1200 \<and> h \<le> 1200 \<longrightarrow> w' = w \<and> h' = h)
            \<and> (w' = w \<and> h' = h
               \<or> w' = 1200 \<and> \<bar>int h' * int w - int h * 1200\<bar> < int w
               \<or> h' = 1200 \<and> \<bar>int w' * int h - int w * 1200\<bar> < int h)"
proof -
  have p: "processImage decode buffer = Some (resize_inside 1200 1200 (w, h))"
    using dec by (simp add: processImage_def)
  consider (inside) "w \<le> 1200 \<and> h \<le> 1200"
    | (wide) "\<not> (w \<le> 1200 \<and> h \<le> 1200)" "h * 1200 \<le> w * 1200"
    | (tall) "\<not> (w \<le> 1200 \<and> h \<le> 1200)" "\<not> h * 1200 \<le> w * 1200"
    by blast
  then show ?thesis
  proof cases
    case inside
    then have "resize_inside 1200 1200 (w, h) = (w, h)" by (simp add: resize_inside_def)
    with p inside w0 h0 show ?thesis by simp
  next
    case wide
    then have big: "1200 < w" by auto
    let ?h' = "max 1 (nearest_div (h * 1200) w)"
    have r: "resize_inside 1200 1200 (w, h) = (1200, ?h')"
      using wide by (auto simp: resize_inside_def)
    have s: "0 < ?h' \<and> ?h' \<le> 1200 \<and> ?h' \<le> h
             \<and> \<bar>int ?h' * int w - int h * int 1200\<bar> < int w"
      using scaled_side [OF big h0 _ _ wide(2)] by simp
    from p r s big show ?thesis by simp
  next
    case tall
    then have big: "1200 < h" by auto
    from tall have fit: "w * 1200 \<le> h * 1200" by simp
    let ?w' = "max 1 (nearest_div (w * 1200) h)"
    have r: "resize_inside 1200 1200 (w, h) = (?w', 1200)"
      using tall by (auto simp: resize_inside_def)
    have s: "0 < ?w' \<and> ?w' \<le> 1200 \<and> ?w' \<le> w
             \<and> \<bar>int ?w' * int h - int w * int 1200\<bar> < int h"
      using scaled_side [OF big w0 _ _ fit] by simp
    from p r s big show ?thesis by simp
  qed
qed

theorem C7_witness:
  "env_decode env0 ''jpeg-4000x3000'' = Some (4000, 3000)
   \<and> processImage (env_decode env0) ''jpeg-4000x3000'' = Some (1200, 900)"
proof -
  have d: "env_decode env0 ''jpeg-4000x3000'' = Some (4000, 3000)"
    by (simp add: env0_def)
  have e: "processImage (env_decode env0) ''jpeg-4000x3000'' = Some (1200, 900)"
    by (simp add: processImage_def env0_def resize_inside_def nearest_div_def)
  have "\<exists>w' h'. processImage (env_decode env0) ''jpeg-4000x3000'' = Some (w', h')
            \<and> 0 < w' \<and> 0 < h' \<and> w' \<le> 1200 \<and> h' \<le> 1200 \<and> w' \<le> 4000 \<and> h' \<le> 3000
            \<and> (4000 \<le> (1200::nat) \<and> 3000 \<le> (1200::nat) \<longrightarrow> w' = 4000 \<and> h' = 3000)
            \<and> (w' = 4000 \<and> h' = 3000
               \<or> w' = 1200 \<and> \<bar>int h' * int 4000 - int 3000 * 1200\<bar> < int 4000
               \<or> h' = 1200 \<and> \<bar>int w' * int 3000 - int 4000 * 1200\<bar> < int 3000)"
    using C7_resize_within_box [of "env_decode env0" "''jpeg-4000x3000''" 4000 3000] d
    by simp
  with d e show ?thesis by blast
qed

text \<open>
  C8, as amended. The listing of src/index.js and part_001 returns only rows of the
  store whose \<open>user_id\<close> is the requester's id, newest first; a tag outside the
  vocabulary gives the same answer as no tag, which holds all the requester's rows when
  the store answers. The listing of part_000 returns the requester's rows in the order
  of the store, with no ordering asked for.
\<close>

theorem C8_own_complaints_listing:
  "(get_complaints avail st u tag = Reply 200 (Complaints rows)
      \<longrightarrow> set rows \<subseteq> {r \<in> set (complaints st). owned_by u r} \<and> newest_first rows)
   \<and> (\<not> includes_str VALID_TAGS tag
      \<longrightarrow> get_complaints avail st u tag = get_complaints avail st u None)
   \<and> (\<not> includes_str VALID_TAGS tag \<and> avail Fetch
      \<longrightarrow> (\<exists>every. get_complaints avail st u tag = Reply 200 (Complaints every)
                  \<and> set every = {r \<in> set (complaints st). owned_by u r}))
   \<and> get_complaints_p0 avail st u
       = (if avail Fetch then Reply 200 (Complaints (filter (owned_by u) (complaints st)))
          else Reply 500 (Message ''Error fetching complaints''))"
proof -
  have a: "get_complaints avail st u tag = Reply 200 (Complaints rows)
      \<longrightarrow> set rows \<subseteq> {r \<in> set (complaints st). owned_by u r} \<and> newest_first rows"
    using get_complaints_rows by blast
  have b: "\<not> includes_str VALID_TAGS tag
      \<longrightarrow> get_complaints avail st u tag = get_complaints avail st u None"
    using get_complaints_invalid_tag by blast
  have c: "\<not> includes_str VALID_TAGS tag \<and> avail Fetch
      \<longrightarrow> (\<exists>every. get_complaints avail st u tag = Reply 200 (Complaints every)
                  \<and> set every = {r \<in> set (complaints st). owned_by u r})"
    using get_complaints_all by blast
  from a b c get_complaints_p0_rows show ?thesis by (intro conjI)
qed

text \<open>
  C8 as stated fails in part_000: the older complaint comes first.
\<close>

theorem C8_counterexample:
  "get_complaints_p0 up campus_store ann_claims = Reply 200 (Complaints [light, chair])
   \<and> created_at light < created_at chair
   \<and> \<not> newest_first [light, chair]"
  by (simp add: get_complaints_p0_def Let_def db_select_def up_def campus_store_def light_def
                chair_def ann_claims_def getp_def newest_first_def)

theorem C8_witness:
  "get_complaints up campus_store ann_claims (Some (JStr ''bogus''))
     = Reply 200 (Complaints [chair, light])
   \<and> set [chair, light] \<subseteq> {r \<in> set (complaints campus_store). owned_by ann_claims r}
   \<and> newest_first [chair, light]"
proof -
  have e: "get_complaints up campus_store ann_claims (Some (JStr ''bogus''))
             = Reply 200 (Complaints [chair, light])"
    by (simp add: get_complaints_def Let_def db_select_def up_def campus_store_def light_def
                  chair_def ann_claims_def getp_def includes_str_def VALID_TAGS_def
                  order_desc_def)
  have "get_complaints up campus_store ann_claims (Some (JStr ''bogus''))
          = Reply 200 (Complaints [chair, light])
        \<longrightarrow> set [chair, light] \<subseteq> {r \<in> set (complaints campus_store). owned_by ann_claims r}
            \<and> newest_first [chair, light]"
    by (rule C8_own_complaints_listing [THEN conjunct1])
  then have x: "set [chair, light] \<subseteq> {r \<in> set (complaints campus_store). owned_by ann_claims r}
            \<and> newest_first [chair, light]"
    using e by (rule mp)
  from e x show ?thesis by (intro conjI) (rule e, rule x [THEN conjunct1], rule x [THEN conjunct2])
qed

end
